theory Spec2Isabelle
  imports Complex_Main
begin

section \<open>The result table\<close>

text \<open>
  \<^verbatim>\<open>plotResults.py\<close> reads a CSV file into a pandas DataFrame and draws four charts from
  it. The DataFrame is modelled after type inference: a list of rows, in file order, with
  the six columns the script reads. \<open>CompNodes\<close> and \<open>INC\<close> are integer (int64) columns, the
  four metrics are numeric columns. A file without one of these columns, or with text in
  them, is not a table of this model; the script ends in an uncaught exception on it. The
  integers of the model are unbounded; what is proved to succeed for every node count is
  proved for the counts below \<open>2 ^ 63\<close>.
\<close>

record row =
  CompNodes :: int
  INC :: int
  TimingCost :: real
  BandwidthUsage_Msg :: real
  BandwidthUsage_Byte :: real
  ComplTimeDiff :: real

type_synonym dataframe = "row list"

text \<open>\<^verbatim>\<open>series == scalar\<close>: the element-wise comparison, a boolean mask.\<close>

definition eq_scalar :: "int list \<Rightarrow> int \<Rightarrow> bool list" where
  "eq_scalar col v = map (\<lambda>x. x = v) col"

text \<open>\<^verbatim>\<open>data[mask]\<close>: boolean indexing keeps the rows whose mask entry is true, in order.\<close>

definition getitem_mask :: "dataframe \<Rightarrow> bool list \<Rightarrow> dataframe" where
  "getitem_mask df msk = map fst (filter snd (zip df msk))"

section \<open>Numbers\<close>

text \<open>
  The values that flow through lines 18 to 21 of each plot function are float64 values.
  They are modelled as real numbers extended by the three special values of IEEE
  arithmetic, which decide what the script does on an empty cohort. The two library
  functions that are not exact in float64, \<^verbatim>\<open>np.log10\<close> and \<^verbatim>\<open>np.power\<close>, round their result
  to the nearest float64 (\<open>f64\<close> below), so that \<^verbatim>\<open>10 ** log10(v)\<close> need not be \<open>v\<close>. A
  C library may return a neighbour of the nearest float64, and the additions and
  multiplications inside \<^verbatim>\<open>np.linspace\<close> are kept exact; what is proved about ticks other
  than the exact ones at 10 and 1000 is therefore stated up to a relative tolerance of
  \<open>2 ^ -40\<close>, which covers both.
\<close>

datatype npfloat = Fin real | PInf | NInf | NaN

datatype error =
    SystemExit int
  | ValueError
  | OverflowError
  | FileNotFoundError
  | FileExistsError
  | IsADirectoryError
  | NotADirectoryError
  | ParserError

fun fl_gt :: "npfloat \<Rightarrow> npfloat \<Rightarrow> bool" where
  "fl_gt NaN _ = False"
| "fl_gt _ NaN = False"
| "fl_gt (Fin a) (Fin b) = (a > b)"
| "fl_gt (Fin a) PInf = False"
| "fl_gt (Fin a) NInf = True"
| "fl_gt PInf PInf = False"
| "fl_gt PInf _ = True"
| "fl_gt NInf _ = False"

definition fl_lt :: "npfloat \<Rightarrow> npfloat \<Rightarrow> bool" where
  "fl_lt a b = fl_gt b a"

fun fl_neg :: "npfloat \<Rightarrow> npfloat" where
  "fl_neg (Fin a) = Fin (- a)"
| "fl_neg PInf = NInf"
| "fl_neg NInf = PInf"
| "fl_neg NaN = NaN"

fun fl_add :: "npfloat \<Rightarrow> npfloat \<Rightarrow> npfloat" where
  "fl_add NaN _ = NaN"
| "fl_add _ NaN = NaN"
| "fl_add (Fin a) (Fin b) = Fin (a + b)"
| "fl_add (Fin a) PInf = PInf"
| "fl_add (Fin a) NInf = NInf"
| "fl_add PInf NInf = NaN"
| "fl_add PInf _ = PInf"
| "fl_add NInf PInf = NaN"
| "fl_add NInf _ = NInf"

definition fl_sub :: "npfloat \<Rightarrow> npfloat \<Rightarrow> npfloat" where
  "fl_sub a b = fl_add a (fl_neg b)"

text \<open>The sign of an infinite product; zero times infinity is NaN.\<close>

definition fl_inf_times :: "bool \<Rightarrow> real \<Rightarrow> npfloat" where
  "fl_inf_times pos a =
     (if a = 0 then NaN else if (0 < a) = pos then PInf else NInf)"

fun fl_mul :: "npfloat \<Rightarrow> npfloat \<Rightarrow> npfloat" where
  "fl_mul NaN _ = NaN"
| "fl_mul _ NaN = NaN"
| "fl_mul (Fin a) (Fin b) = Fin (a * b)"
| "fl_mul (Fin a) PInf = fl_inf_times True a"
| "fl_mul (Fin a) NInf = fl_inf_times False a"
| "fl_mul PInf (Fin b) = fl_inf_times True b"
| "fl_mul NInf (Fin b) = fl_inf_times False b"
| "fl_mul PInf PInf = PInf"
| "fl_mul PInf NInf = NInf"
| "fl_mul NInf PInf = NInf"
| "fl_mul NInf NInf = PInf"

text \<open>Division by a count, as \<^verbatim>\<open>linspace\<close> divides by \<^verbatim>\<open>num - 1\<close>.\<close>

fun fl_div :: "npfloat \<Rightarrow> nat \<Rightarrow> npfloat" where
  "fl_div NaN _ = NaN"
| "fl_div (Fin a) d =
     (if d = 0 then (if a = 0 then NaN else if 0 < a then PInf else NInf)
      else Fin (a / real d))"
| "fl_div PInf _ = PInf"
| "fl_div NInf _ = NInf"

text \<open>
  Rounding to the nearest float64: a significand of 53 bits, ties to the even neighbour.
  \<open>rne\<close> rounds a real to the nearest integer, ties to even; \<open>f64\<close> scales by the unit in
  the last place of the binade of \<open>x\<close>. Subnormal numbers and overflow are left out: the
  logarithms and powers of the script's 64-bit node counts are far from both.
\<close>

definition rne :: "real \<Rightarrow> int" where
  "rne r =
     (let f = \<lfloor>r\<rfloor>; d = r - real_of_int f
      in if d < 1 / 2 then f else if 1 / 2 < d then f + 1 else if even f then f else f + 1)"

definition f64 :: "real \<Rightarrow> real" where
  "f64 x =
     (if x = 0 then 0
      else (let e = \<lfloor>log 2 \<bar>x\<bar>\<rfloor> - 52
            in real_of_int (rne (x / 2 powr real_of_int e)) * 2 powr real_of_int e))"

text \<open>\<^verbatim>\<open>np.log10\<close>: minus infinity at zero, NaN below zero (numpy warns, it does not raise).\<close>

fun np_log10 :: "npfloat \<Rightarrow> npfloat" where
  "np_log10 (Fin x) = (if 0 < x then Fin (f64 (log 10 x)) else if x = 0 then NInf else NaN)"
| "np_log10 PInf = PInf"
| "np_log10 NInf = NaN"
| "np_log10 NaN = NaN"

text \<open>\<^verbatim>\<open>np.power(10.0, y)\<close>, the last step of \<^verbatim>\<open>np.logspace\<close>.\<close>

fun np_power10 :: "npfloat \<Rightarrow> npfloat" where
  "np_power10 (Fin y) = Fin (f64 (10 powr y))"
| "np_power10 PInf = PInf"
| "np_power10 NInf = Fin 0"
| "np_power10 NaN = NaN"

text \<open>
  \<^verbatim>\<open>np.linspace(start, stop, num)\<close> with the endpoint included:
  \<^verbatim>\<open>
    div = num - 1
    delta = stop - start
    y = arange(0, num)
    if div > 0:
        step = delta / div
        if step == 0: y = (y / div) * delta
        else:         y = y * step
    else:
        y = y * delta
    y += start
    if num > 1: y[-1] = stop
  \<close>
\<close>

definition np_linspace :: "npfloat \<Rightarrow> npfloat \<Rightarrow> nat \<Rightarrow> npfloat list" where
  "np_linspace start stop num =
     (let dv = num - 1;
          delta = fl_sub stop start;
          y = map (\<lambda>i. Fin (real i)) [0..<num];
          y = (if 0 < dv then
                 (let step = fl_div delta dv
                  in if step = Fin 0 then map (\<lambda>v. fl_mul (fl_div v dv) delta) y
                     else map (\<lambda>v. fl_mul v step) y)
               else map (\<lambda>v. fl_mul v delta) y);
          y = map (\<lambda>v. fl_add v start) y
      in if 1 < num then y[num - 1 := stop] else y)"

definition np_logspace :: "npfloat \<Rightarrow> npfloat \<Rightarrow> nat \<Rightarrow> npfloat list" where
  "np_logspace start stop num = map np_power10 (np_linspace start stop num)"

text \<open>
  \<^verbatim>\<open>Series.max()\<close> and \<^verbatim>\<open>Series.min()\<close>: pandas returns NaN for a series without rows,
  it does not raise.
\<close>

definition series_max :: "int list \<Rightarrow> npfloat" where
  "series_max col = (if col = [] then NaN else Fin (real_of_int (Max (set col))))"

definition series_min :: "int list \<Rightarrow> npfloat" where
  "series_min col = (if col = [] then NaN else Fin (real_of_int (Min (set col))))"

text \<open>
  Python's built-in \<^verbatim>\<open>max(a, b)\<close> keeps \<open>a\<close> unless \<^verbatim>\<open>b > a\<close>, and \<^verbatim>\<open>min(a, b)\<close> keeps
  \<open>a\<close> unless \<^verbatim>\<open>b < a\<close>. Every comparison with NaN is false, so the first argument
  survives when either one is NaN.
\<close>

definition py_max :: "npfloat \<Rightarrow> npfloat \<Rightarrow> npfloat" where
  "py_max a b = (if fl_gt b a then b else a)"

definition py_min :: "npfloat \<Rightarrow> npfloat \<Rightarrow> npfloat" where
  "py_min a b = (if fl_lt b a then b else a)"

text \<open>
  \<^verbatim>\<open>int(tick)\<close> truncates towards zero; it raises ValueError on NaN and OverflowError on
  an infinity.
\<close>

fun py_int :: "npfloat \<Rightarrow> error + int" where
  "py_int (Fin x) = Inr (if 0 \<le> x then \<lfloor>x\<rfloor> else \<lceil>x\<rceil>)"
| "py_int NaN = Inl ValueError"
| "py_int PInf = Inl OverflowError"
| "py_int NInf = Inl OverflowError"

text \<open>The format \<^verbatim>\<open>f'{n:,}'\<close>: decimal digits in groups of three, separated by commas.\<close>

fun digits :: "nat \<Rightarrow> string" where
  "digits n =
     (if n < 10 then [''0123456789'' ! n]
      else digits (n div 10) @ [''0123456789'' ! (n mod 10)])"

declare digits.simps [simp del]

fun group3 :: "string \<Rightarrow> string" where
  "group3 (a # b # c # d # rest) = a # b # c # CHR '','' # group3 (d # rest)"
| "group3 ds = ds"

definition format_thousands :: "int \<Rightarrow> string" where
  "format_thousands n =
     (if n < 0 then CHR ''-'' # rev (group3 (rev (digits (nat (- n)))))
      else rev (group3 (rev (digits (nat n)))))"

text \<open>
  The list comprehension \<^verbatim>\<open>[f'{int(tick):,}' for tick in ticks]\<close> stops at the first tick
  that \<^verbatim>\<open>int\<close> rejects.
\<close>

fun tick_labels :: "npfloat list \<Rightarrow> error + string list" where
  "tick_labels [] = Inr []"
| "tick_labels (t # ts) =
     (case py_int t of
        Inl e \<Rightarrow> Inl e
      | Inr n \<Rightarrow>
          (case tick_labels ts of
             Inl e \<Rightarrow> Inl e
           | Inr ls \<Rightarrow> Inr (format_thousands n # ls)))"

section \<open>Figures, files and the interpreter state\<close>

text \<open>
  A figure records what the pyplot calls of the script put on it. Font sizes, the figure
  size and the layout padding change the geometry of the image only and are left out.
\<close>

record series =
  xdata :: "int list"
  ydata :: "real list"
  label :: string
  marker :: string

record figure =
  lines :: "series list"
  title :: string
  xlabel :: string
  ylabel :: string
  legend_loc :: "string option"
  grid :: bool
  xscale :: string
  yscale :: string
  xticks :: "(npfloat list \<times> string list) option"

definition new_figure :: figure where
  "new_figure =
     \<lparr>lines = [], title = [], xlabel = [], ylabel = [], legend_loc = None, grid = False,
      xscale = ''linear'', yscale = ''linear'', xticks = None\<rparr>"

text \<open>
  A file is known by what the script can do with it: \<^verbatim>\<open>pd.read_csv\<close> parses it into a
  table, or it is an image a plot function wrote, or it is anything else.
\<close>

datatype content = Csv dataframe | Png figure | Other

datatype entry = Dir | File content

text \<open>
  The state of the process: the file system (paths relative to the working directory),
  the lines printed to standard output, the stack of open pyplot figures (the head is the
  current one), and the store of DataFrame objects with its allocation pointer. Variables
  of the script hold addresses of the store.
\<close>

record pystate =
  fs :: "string \<Rightarrow> entry option"
  stdout :: "string list"
  figs :: "figure list"
  heap :: "nat \<Rightarrow> dataframe"
  nxt :: nat

text \<open>A statement ends normally (\<open>None\<close>) or raises; the state it reached is kept.\<close>

type_synonym outcome = "error option \<times> pystate"

definition and_then :: "outcome \<Rightarrow> (pystate \<Rightarrow> outcome) \<Rightarrow> outcome" where
  "and_then r f = (case r of (None, s) \<Rightarrow> f s | (Some e, s) \<Rightarrow> (Some e, s))"

definition new_frame :: "dataframe \<Rightarrow> pystate \<Rightarrow> nat \<times> pystate" where
  "new_frame df s = (nxt s, s\<lparr>heap := (heap s)(nxt s := df), nxt := Suc (nxt s)\<rparr>)"

definition print :: "string \<Rightarrow> pystate \<Rightarrow> pystate" where
  "print line s = s\<lparr>stdout := stdout s @ [line]\<rparr>"

definition sys_exit :: "int \<Rightarrow> pystate \<Rightarrow> outcome" where
  "sys_exit n s = (Some (SystemExit n), s)"

definition os_path_exists :: "string \<Rightarrow> pystate \<Rightarrow> bool" where
  "os_path_exists p s = (fs s p \<noteq> None)"

text \<open>\<^verbatim>\<open>os.makedirs\<close> on a path of one component, as the script calls it.\<close>

definition os_makedirs :: "string \<Rightarrow> pystate \<Rightarrow> outcome" where
  "os_makedirs p s =
     (if fs s p \<noteq> None then (Some FileExistsError, s)
      else (None, s\<lparr>fs := (fs s)(p \<mapsto> Dir)\<rparr>))"

definition read_csv :: "string \<Rightarrow> pystate \<Rightarrow> error + dataframe" where
  "read_csv p s =
     (case fs s p of
        None \<Rightarrow> Inl FileNotFoundError
      | Some Dir \<Rightarrow> Inl IsADirectoryError
      | Some (File (Csv df)) \<Rightarrow> Inr df
      | Some (File _) \<Rightarrow> Inl ParserError)"

text \<open>pyplot acts on the current figure and opens one when there is none.\<close>

definition on_gcf :: "(figure \<Rightarrow> figure) \<Rightarrow> pystate \<Rightarrow> pystate" where
  "on_gcf f s =
     (case figs s of
        [] \<Rightarrow> s\<lparr>figs := [f new_figure]\<rparr>
      | g # gs \<Rightarrow> s\<lparr>figs := f g # gs\<rparr>)"

definition plt_figure :: "pystate \<Rightarrow> pystate" where
  "plt_figure s = s\<lparr>figs := new_figure # figs s\<rparr>"

definition plt_plot :: "int list \<Rightarrow> real list \<Rightarrow> string \<Rightarrow> string \<Rightarrow> pystate \<Rightarrow> pystate" where
  "plt_plot x y lbl mk =
     on_gcf (\<lambda>g. g\<lparr>lines := lines g @ [\<lparr>xdata = x, ydata = y, label = lbl, marker = mk\<rparr>]\<rparr>)"

definition plt_title :: "string \<Rightarrow> pystate \<Rightarrow> pystate" where
  "plt_title t = on_gcf (\<lambda>g. g\<lparr>title := t\<rparr>)"

definition plt_xlabel :: "string \<Rightarrow> pystate \<Rightarrow> pystate" where
  "plt_xlabel t = on_gcf (\<lambda>g. g\<lparr>xlabel := t\<rparr>)"

definition plt_ylabel :: "string \<Rightarrow> pystate \<Rightarrow> pystate" where
  "plt_ylabel t = on_gcf (\<lambda>g. g\<lparr>ylabel := t\<rparr>)"

definition plt_legend :: "string \<Rightarrow> pystate \<Rightarrow> pystate" where
  "plt_legend loc = on_gcf (\<lambda>g. g\<lparr>legend_loc := Some loc\<rparr>)"

definition plt_grid :: "bool \<Rightarrow> pystate \<Rightarrow> pystate" where
  "plt_grid b = on_gcf (\<lambda>g. g\<lparr>grid := b\<rparr>)"

definition plt_xscale :: "string \<Rightarrow> pystate \<Rightarrow> pystate" where
  "plt_xscale v = on_gcf (\<lambda>g. g\<lparr>xscale := v\<rparr>)"

definition plt_yscale :: "string \<Rightarrow> pystate \<Rightarrow> pystate" where
  "plt_yscale v = on_gcf (\<lambda>g. g\<lparr>yscale := v\<rparr>)"

definition plt_xticks :: "npfloat list \<Rightarrow> string list \<Rightarrow> pystate \<Rightarrow> pystate" where
  "plt_xticks ticks labels = on_gcf (\<lambda>g. g\<lparr>xticks := Some (ticks, labels)\<rparr>)"

definition plt_close :: "pystate \<Rightarrow> pystate" where
  "plt_close s = s\<lparr>figs := tl (figs s)\<rparr>"

text \<open>The directory part of a path: everything before its last slash.\<close>

definition dirname :: "string \<Rightarrow> string" where
  "dirname p =
     (if CHR ''/'' \<in> set p then rev (tl (dropWhile (\<lambda>c. c \<noteq> CHR ''/'') (rev p))) else [])"

text \<open>
  \<^verbatim>\<open>plt.savefig(path)\<close> writes the current figure, replacing a file of that name. It raises
  when the directory of the path is missing or is not a directory, or when the path names
  a directory.
\<close>

definition plt_savefig :: "string \<Rightarrow> pystate \<Rightarrow> outcome" where
  "plt_savefig p s0 =
     (let s = on_gcf (\<lambda>g. g) s0;
          d = dirname p
      in if d \<noteq> [] \<and> fs s d = None then (Some FileNotFoundError, s)
         else if d \<noteq> [] \<and> fs s d \<noteq> Some Dir then (Some NotADirectoryError, s)
         else if fs s p = Some Dir then (Some IsADirectoryError, s)
         else (None, s\<lparr>fs := (fs s)(p \<mapsto> File (Png (hd (figs s))))\<rparr>))"

section \<open>The script\<close>

text \<open>
  The four plot functions, one definition each, as the script has them. The cohorts are
  passed as addresses of the store.
\<close>

definition plot_timing_cost :: "nat \<Rightarrow> nat \<Rightarrow> pystate \<Rightarrow> outcome" where
  "plot_timing_cost inc_enabled traditional s0 =
     (let s = plt_figure s0;
          s = plt_plot (map CompNodes (heap s inc_enabled)) (map TimingCost (heap s inc_enabled))
                ''INC-enabled'' ''o'' s;
          s = plt_plot (map CompNodes (heap s traditional)) (map TimingCost (heap s traditional))
                ''Traditional'' ''D'' s;
          s = plt_title ''Timing Cost'' s;
          s = plt_xlabel ''Computing Nodes'' s;
          s = plt_ylabel ''Timing Cost (Ticks)'' s;
          s = plt_legend ''upper left'' s;
          s = plt_grid True s;
          s = plt_xscale ''log'' s;
          s = plt_yscale ''linear'' s;
          max_comp_nodes = py_max (series_max (map CompNodes (heap s inc_enabled)))
                                  (series_max (map CompNodes (heap s traditional)));
          min_comp_nodes = py_min (series_min (map CompNodes (heap s inc_enabled)))
                                  (series_min (map CompNodes (heap s traditional)));
          ticks = np_logspace (np_log10 min_comp_nodes) (np_log10 max_comp_nodes) 10
      in case tick_labels ticks of
           Inl e \<Rightarrow> (Some e, s)
         | Inr labels \<Rightarrow>
             and_then (plt_savefig ''results/TimingCost.png'' (plt_xticks ticks labels s))
               (\<lambda>s. (None, plt_close s)))"

definition plot_bandwidth_usage_msg :: "nat \<Rightarrow> nat \<Rightarrow> pystate \<Rightarrow> outcome" where
  "plot_bandwidth_usage_msg inc_enabled traditional s0 =
     (let s = plt_figure s0;
          s = plt_plot (map CompNodes (heap s inc_enabled)) (map BandwidthUsage_Msg (heap s inc_enabled))
                ''INC-enabled'' ''o'' s;
          s = plt_plot (map CompNodes (heap s traditional)) (map BandwidthUsage_Msg (heap s traditional))
                ''Traditional'' ''D'' s;
          s = plt_title ''Bandwidth Usage (Message Based)'' s;
          s = plt_xlabel ''Computing Nodes'' s;
          s = plt_ylabel ''Bandwidth Usage (Messages)'' s;
          s = plt_legend ''upper left'' s;
          s = plt_grid True s;
          s = plt_xscale ''log'' s;
          s = plt_yscale ''linear'' s;
          max_comp_nodes = py_max (series_max (map CompNodes (heap s inc_enabled)))
                                  (series_max (map CompNodes (heap s traditional)));
          min_comp_nodes = py_min (series_min (map CompNodes (heap s inc_enabled)))
                                  (series_min (map CompNodes (heap s traditional)));
          ticks = np_logspace (np_log10 min_comp_nodes) (np_log10 max_comp_nodes) 10
      in case tick_labels ticks of
           Inl e \<Rightarrow> (Some e, s)
         | Inr labels \<Rightarrow>
             and_then (plt_savefig ''results/BandwidthUsage_Msg.png'' (plt_xticks ticks labels s))
               (\<lambda>s. (None, plt_close s)))"

definition plot_bandwidth_usage_byte :: "nat \<Rightarrow> nat \<Rightarrow> pystate \<Rightarrow> outcome" where
  "plot_bandwidth_usage_byte inc_enabled traditional s0 =
     (let s = plt_figure s0;
          s = plt_plot (map CompNodes (heap s inc_enabled)) (map BandwidthUsage_Byte (heap s inc_enabled))
                ''INC-enabled'' ''o'' s;
          s = plt_plot (map CompNodes (heap s traditional)) (map BandwidthUsage_Byte (heap s traditional))
                ''Traditional'' ''D'' s;
          s = plt_title ''Bandwidth Usage'' s;
          s = plt_xlabel ''Computing Nodes'' s;
          s = plt_ylabel ''Bandwidth Usage (Bytes)'' s;
          s = plt_legend ''upper left'' s;
          s = plt_grid True s;
          s = plt_xscale ''log'' s;
          s = plt_yscale ''linear'' s;
          max_comp_nodes = py_max (series_max (map CompNodes (heap s inc_enabled)))
                                  (series_max (map CompNodes (heap s traditional)));
          min_comp_nodes = py_min (series_min (map CompNodes (heap s inc_enabled)))
                                  (series_min (map CompNodes (heap s traditional)));
          ticks = np_logspace (np_log10 min_comp_nodes) (np_log10 max_comp_nodes) 10
      in case tick_labels ticks of
           Inl e \<Rightarrow> (Some e, s)
         | Inr labels \<Rightarrow>
             and_then (plt_savefig ''results/BandwidthUsage_Byte.png'' (plt_xticks ticks labels s))
               (\<lambda>s. (None, plt_close s)))"

definition plot_compl_time_diff :: "nat \<Rightarrow> nat \<Rightarrow> pystate \<Rightarrow> outcome" where
  "plot_compl_time_diff inc_enabled traditional s0 =
     (let s = plt_figure s0;
          s = plt_plot (map CompNodes (heap s inc_enabled)) (map ComplTimeDiff (heap s inc_enabled))
                ''INC-enabled'' ''o'' s;
          s = plt_plot (map CompNodes (heap s traditional)) (map ComplTimeDiff (heap s traditional))
                ''Traditional'' ''D'' s;
          s = plt_title ''Completion Time Variation'' s;
          s = plt_xlabel ''Computing Nodes'' s;
          s = plt_ylabel ''Max. Completion Time Difference (Ticks)'' s;
          s = plt_legend ''upper left'' s;
          s = plt_grid True s;
          s = plt_xscale ''log'' s;
          s = plt_yscale ''linear'' s;
          max_comp_nodes = py_max (series_max (map CompNodes (heap s inc_enabled)))
                                  (series_max (map CompNodes (heap s traditional)));
          min_comp_nodes = py_min (series_min (map CompNodes (heap s inc_enabled)))
                                  (series_min (map CompNodes (heap s traditional)));
          ticks = np_logspace (np_log10 min_comp_nodes) (np_log10 max_comp_nodes) 10
      in case tick_labels ticks of
           Inl e \<Rightarrow> (Some e, s)
         | Inr labels \<Rightarrow>
             and_then (plt_savefig ''results/ComplTimeDiff.png'' (plt_xticks ticks labels s))
               (\<lambda>s. (None, plt_close s)))"

definition visualize_data :: "string \<Rightarrow> pystate \<Rightarrow> outcome" where
  "visualize_data csv_file_path s0 =
     (if \<not> os_path_exists csv_file_path s0 then
        sys_exit 1 (print (''File not found: '' @ csv_file_path) s0)
      else
        case read_csv csv_file_path s0 of
          Inl e \<Rightarrow> (Some e, s0)
        | Inr df \<Rightarrow>
            (let (data, s) = new_frame df s0;
                 (inc_enabled, s) =
                    new_frame (getitem_mask (heap s data) (eq_scalar (map INC (heap s data)) 1)) s;
                 (traditional, s) =
                    new_frame (getitem_mask (heap s data) (eq_scalar (map INC (heap s data)) 0)) s
             in and_then
                  (if \<not> os_path_exists ''results'' s then os_makedirs ''results'' s
                   else (None, s))
                  (\<lambda>s. and_then (plot_timing_cost inc_enabled traditional s)
                  (\<lambda>s. and_then (plot_bandwidth_usage_msg inc_enabled traditional s)
                  (\<lambda>s. and_then (plot_bandwidth_usage_byte inc_enabled traditional s)
                  (\<lambda>s. plot_compl_time_diff inc_enabled traditional s))))))"

text \<open>
  The \<^verbatim>\<open>__main__\<close> block; \<open>argv\<close> is \<^verbatim>\<open>sys.argv\<close>, the script name followed by the
  positional arguments.
\<close>

definition main :: "string list \<Rightarrow> pystate \<Rightarrow> outcome" where
  "main argv s =
     (if length argv > 2 then
        sys_exit 1 (print ''Usage: python plotResults.py [<csv_file_path>]'' s)
      else
        (let csv_file_path = (if length argv = 2 then argv ! 1 else ''result.csv'')
         in visualize_data csv_file_path s))"

text \<open>
  The exit status of the process: 0 after a normal end, the argument of \<^verbatim>\<open>sys.exit\<close>,
  and 1 after any other exception that nothing catches.
\<close>

fun exit_status :: "error option \<Rightarrow> int" where
  "exit_status None = 0"
| "exit_status (Some (SystemExit n)) = n"
| "exit_status (Some _) = 1"

section \<open>A normal form of the plot functions\<close>

text \<open>Lines 18 to 20 of a plot function, on the two \<open>CompNodes\<close> columns.\<close>

abbreviation comp_node_ticks :: "int list \<Rightarrow> int list \<Rightarrow> npfloat list" where
  "comp_node_ticks xs ys \<equiv>
     np_logspace (np_log10 (py_min (series_min xs) (series_min ys)))
                 (np_log10 (py_max (series_max xs) (series_max ys))) 10"

text \<open>
  The figure a plot function has built when it reaches line 18, and what it does from
  there. Both are derived: each plot function is proved equal to \<open>finish_plot\<close> on its own
  \<open>chart\<close> below, and the proofs about the four functions go through this form.
\<close>

definition chart :: "(row \<Rightarrow> real) \<Rightarrow> string \<Rightarrow> string \<Rightarrow> dataframe \<Rightarrow> dataframe \<Rightarrow> figure" where
  "chart metric ttl yl a b =
     \<lparr>lines = [\<lparr>xdata = map CompNodes a, ydata = map metric a,
                 label = ''INC-enabled'', marker = ''o''\<rparr>,
               \<lparr>xdata = map CompNodes b, ydata = map metric b,
                 label = ''Traditional'', marker = ''D''\<rparr>],
      title = ttl, xlabel = ''Computing Nodes'', ylabel = yl,
      legend_loc = Some ''upper left'', grid = True, xscale = ''log'', yscale = ''linear'',
      xticks = None\<rparr>"

definition finish_plot :: "figure \<Rightarrow> string \<Rightarrow> int list \<Rightarrow> int list \<Rightarrow> pystate \<Rightarrow> outcome" where
  "finish_plot g p xs ys s =
     (case tick_labels (comp_node_ticks xs ys) of
        Inl e \<Rightarrow> (Some e, s\<lparr>figs := g # figs s\<rparr>)
      | Inr labels \<Rightarrow>
          (let g' = g\<lparr>xticks := Some (comp_node_ticks xs ys, labels)\<rparr> in
           if fs s ''results'' = None then (Some FileNotFoundError, s\<lparr>figs := g' # figs s\<rparr>)
           else if fs s ''results'' \<noteq> Some Dir
             then (Some NotADirectoryError, s\<lparr>figs := g' # figs s\<rparr>)
           else if fs s p = Some Dir then (Some IsADirectoryError, s\<lparr>figs := g' # figs s\<rparr>)
           else (None, s\<lparr>fs := (fs s)(p \<mapsto> File (Png g'))\<rparr>)))"

text \<open>The figure a successful plot function left in a file.\<close>

definition saved_figure :: "pystate \<Rightarrow> string \<Rightarrow> figure option" where
  "saved_figure s p = (case fs s p of Some (File (Png g)) \<Rightarrow> Some g | _ \<Rightarrow> None)"

text \<open>
  The ticks and labels a plot function put on its figure: read from the image when the call
  returned, from the figure it left open when it raised. \<open>None\<close> when it set none.
\<close>

definition drawn_ticks :: "outcome \<Rightarrow> string \<Rightarrow> (npfloat list \<times> string list) option" where
  "drawn_ticks r p =
     (case r of
        (None, s) \<Rightarrow> (case saved_figure s p of Some g \<Rightarrow> xticks g | None \<Rightarrow> None)
      | (Some e, s) \<Rightarrow> (case figs s of g # _ \<Rightarrow> xticks g | [] \<Rightarrow> None))"

text \<open>
  Two states agree off the path \<open>p\<close> when the cohorts at the addresses \<open>i\<close> and \<open>t\<close> are
  the same and the file systems differ at most in what the file at \<open>p\<close> holds. Used to
  compare the run on a table with the run on the table without the excluded rows.
\<close>

definition agree_off :: "string \<Rightarrow> nat \<Rightarrow> nat \<Rightarrow> pystate \<Rightarrow> pystate \<Rightarrow> bool" where
  "agree_off p i t a b =
     (heap a i = heap b i \<and> heap a t = heap b t \<and>
      (\<forall>q. fs a q = fs b q \<or>
           (q = p \<and> (\<exists>c d. fs a q = Some (File c) \<and> fs b q = Some (File d)))))"

section \<open>Example inputs\<close>

definition ex_row :: "int \<Rightarrow> int \<Rightarrow> row" where
  "ex_row n f =
     \<lparr>CompNodes = n, INC = f, TimingCost = 5, BandwidthUsage_Msg = 8,
      BandwidthUsage_Byte = 64, ComplTimeDiff = 2\<rparr>"

definition ex_table :: dataframe where
  "ex_table = [ex_row 10 1, ex_row 1000 1, ex_row 10 0, ex_row 100 0, ex_row 50 2]"

text \<open>A working directory that holds \<^verbatim>\<open>result.csv\<close> and nothing else.\<close>

definition ex_disk :: pystate where
  "ex_disk =
     \<lparr>fs = [''result.csv'' \<mapsto> File (Csv ex_table)], stdout = [], figs = [],
      heap = (\<lambda>_. []), nxt = 0\<rparr>"

text \<open>
  A state in which two cohorts are loaded at the addresses 0 and 1 and the directory
  \<^verbatim>\<open>results\<close> exists.
\<close>

definition ex_loaded :: "dataframe \<Rightarrow> dataframe \<Rightarrow> pystate" where
  "ex_loaded a b =
     \<lparr>fs = [''results'' \<mapsto> Dir], stdout = [], figs = [],
      heap = (\<lambda>_. [])(0 := a, Suc 0 := b), nxt = 2\<rparr>"

section \<open>Lemmas\<close>

lemma rne_of_int [simp]: "rne (real_of_int k) = k"
  by (simp add: rne_def)

lemma rne_bounds: "real_of_int (rne r) \<le> r + 1 / 2" "r - 1 / 2 \<le> real_of_int (rne r)"
  unfolding rne_def Let_def by (auto; linarith)+

lemma rne_floor_le: "\<lfloor>r\<rfloor> \<le> rne r" and rne_le_floor: "rne r \<le> \<lfloor>r\<rfloor> + 1"
  by (simp_all add: rne_def Let_def)

lemma rne_mono:
  assumes "r \<le> r'"
  shows "rne r \<le> rne r'"
proof (cases "\<lfloor>r\<rfloor> = \<lfloor>r'\<rfloor>")
  case True
  then show ?thesis
    using assms unfolding rne_def Let_def by auto
next
  case False
  with assms have "\<lfloor>r\<rfloor> < \<lfloor>r'\<rfloor>"
    using floor_mono [OF assms] by linarith
  then have "rne r \<le> \<lfloor>r'\<rfloor>"
    using rne_le_floor [of r] by linarith
  then show ?thesis
    using rne_floor_le [of r'] by linarith
qed


lemma binade:
  assumes "0 < x"
  shows "2 powr real_of_int \<lfloor>log 2 x\<rfloor> \<le> x" and "x < 2 powr (real_of_int \<lfloor>log 2 x\<rfloor> + 1)"
proof -
  have "real_of_int \<lfloor>log 2 x\<rfloor> \<le> log 2 x" by simp
  then have "2 powr real_of_int \<lfloor>log 2 x\<rfloor> \<le> 2 powr log 2 x"
    by (simp only: powr_le_cancel_iff) 
  then show "2 powr real_of_int \<lfloor>log 2 x\<rfloor> \<le> x"
    using assms by simp
  have "log 2 x < real_of_int \<lfloor>log 2 x\<rfloor> + 1" by linarith
  then have "2 powr log 2 x < 2 powr (real_of_int \<lfloor>log 2 x\<rfloor> + 1)"
    by (simp only: powr_less_cancel_iff)
  then show "x < 2 powr (real_of_int \<lfloor>log 2 x\<rfloor> + 1)"
    using assms by simp
qed

lemma f64_pos_eq:
  assumes "0 < x"
  shows "f64 x = real_of_int (rne (x / 2 powr real_of_int (\<lfloor>log 2 x\<rfloor> - 52))) *
                 2 powr real_of_int (\<lfloor>log 2 x\<rfloor> - 52)"
  using assms by (simp add: f64_def Let_def)

lemma f64_ge_binade:
  assumes "0 < x"
  shows "2 powr real_of_int \<lfloor>log 2 x\<rfloor> \<le> f64 x"
proof -
  let ?E = "\<lfloor>log 2 x\<rfloor>"
  let ?u = "2 powr real_of_int (?E - 52)"
  have u: "0 < ?u" by simp
  have split: "2 powr real_of_int ?E = 2 ^ 52 * ?u"
    by (simp add: powr_diff)
  have "real_of_int (2 ^ 52) \<le> x / ?u"
    using binade(1) [OF assms] u by (simp add: split pos_le_divide_eq)
  then have "rne (real_of_int (2 ^ 52)) \<le> rne (x / ?u)"
    by (rule rne_mono)
  then have "real_of_int (2 ^ 52) \<le> real_of_int (rne (x / ?u))"
    by (simp only: rne_of_int of_int_le_iff)
  then have "2 ^ 52 \<le> real_of_int (rne (x / ?u))"
    by simp
  then have "2 ^ 52 * ?u \<le> real_of_int (rne (x / ?u)) * ?u"
    using u by (simp only: mult_le_cancel_right_pos)
  then show ?thesis
    by (simp only: f64_pos_eq [OF assms] split)
qed


lemma f64_error:
  assumes "0 < x"
  shows "\<bar>f64 x - x\<bar> \<le> x / 2 ^ 53"
proof -
  let ?E = "\<lfloor>log 2 x\<rfloor>"
  let ?u = "2 powr real_of_int (?E - 52)"
  have u: "0 < ?u" by simp
  have split: "2 powr real_of_int ?E = 2 ^ 52 * ?u"
    by (simp add: powr_diff)
  have ux: "?u \<le> x / 2 ^ 52"
    using binade(1) [OF assms] by (simp add: split pos_le_divide_eq mult.commute)
  have "\<bar>real_of_int (rne (x / ?u)) - x / ?u\<bar> \<le> 1 / 2"
    using rne_bounds [of "x / ?u"] by linarith
  then have le: "\<bar>real_of_int (rne (x / ?u)) - x / ?u\<bar> * ?u \<le> 1 / 2 * ?u"
    using u by (simp only: mult_le_cancel_right_pos)
  have "(real_of_int (rne (x / ?u)) - x / ?u) * ?u = f64 x - x"
    using u by (simp add: f64_pos_eq [OF assms] left_diff_distrib)
  then have eq: "\<bar>real_of_int (rne (x / ?u)) - x / ?u\<bar> * ?u = \<bar>f64 x - x\<bar>"
    using u abs_mult_pos [of ?u "real_of_int (rne (x / ?u)) - x / ?u"] by simp
  from le have "\<bar>f64 x - x\<bar> \<le> ?u / 2"
    unfolding eq by simp
  with ux show ?thesis by simp
qed

lemma f64_le_int:
  assumes "0 < x" and "x \<le> real_of_int c" and "c < 2 ^ 53"
  shows "f64 x \<le> real_of_int c"
proof -
  let ?E = "\<lfloor>log 2 x\<rfloor>"
  let ?u = "2 powr real_of_int (?E - 52)"
  have u: "0 < ?u" by simp
  have "2 powr real_of_int ?E < 2 powr 53"
    using binade(1) [OF assms(1)] assms(2,3) by simp
  then have "real_of_int ?E < 53"
    by (simp only: powr_less_cancel_iff) 
  then have E: "?E \<le> 52" by linarith
  define n where "n = nat (52 - ?E)"
  have n: "real_of_int (?E - 52) = - real n"
    using E by (simp add: n_def)
  have inv: "1 / ?u = 2 ^ n"
    by (simp only: n powr_minus powr_realpow) (simp add: field_simps)
  have "real_of_int c / ?u = real_of_int (c * 2 ^ n)"
    using inv by (simp add: field_simps)
  moreover have "x / ?u \<le> real_of_int c / ?u"
    using assms(2) u by (simp add: divide_right_mono)
  ultimately have "rne (x / ?u) \<le> c * 2 ^ n"
    using rne_mono [of "x / ?u" "real_of_int (c * 2 ^ n)"] by (simp del: of_int_mult of_int_power)
  then have "real_of_int (rne (x / ?u)) \<le> real_of_int (c * 2 ^ n)"
    by linarith
  then have "real_of_int (rne (x / ?u)) * ?u \<le> real_of_int (c * 2 ^ n) * ?u"
    using u by (simp only: mult_le_cancel_right_pos)
  moreover have "real_of_int (c * 2 ^ n) * ?u = real_of_int c"
    using inv u by (simp add: field_simps)
  ultimately show ?thesis
    by (simp only: f64_pos_eq [OF assms(1)])
qed

lemma f64_ge_int:
  assumes "0 < c" and "real_of_int c \<le> x" and "c < 2 ^ 53"
  shows "real_of_int c \<le> f64 x"
proof (cases "\<lfloor>log 2 x\<rfloor> \<le> 52")
  case False
  have x: "0 < x" using assms(1,2) by linarith
  from False have "(53::real) \<le> real_of_int \<lfloor>log 2 x\<rfloor>" by linarith
  then have "(2::real) powr 53 \<le> 2 powr real_of_int \<lfloor>log 2 x\<rfloor>"
    by (simp only: powr_le_cancel_iff) 
  with f64_ge_binade [OF x] assms(3) show ?thesis
    by simp
next
  case E: True
  have x: "0 < x" using assms(1,2) by linarith
  let ?E = "\<lfloor>log 2 x\<rfloor>"
  let ?u = "2 powr real_of_int (?E - 52)"
  have u: "0 < ?u" by simp
  define n where "n = nat (52 - ?E)"
  have n: "real_of_int (?E - 52) = - real n"
    using E by (simp add: n_def)
  have inv: "1 / ?u = 2 ^ n"
    by (simp only: n powr_minus powr_realpow) (simp add: field_simps)
  have "real_of_int c / ?u = real_of_int (c * 2 ^ n)"
    using inv by (simp add: field_simps)
  moreover have "real_of_int c / ?u \<le> x / ?u"
    using assms(2) u by (simp add: divide_right_mono)
  ultimately have "c * 2 ^ n \<le> rne (x / ?u)"
    using rne_mono [of "real_of_int (c * 2 ^ n)" "x / ?u"] by (simp del: of_int_mult of_int_power)
  then have "real_of_int (c * 2 ^ n) \<le> real_of_int (rne (x / ?u))"
    by linarith
  then have "real_of_int (c * 2 ^ n) * ?u \<le> real_of_int (rne (x / ?u)) * ?u"
    using u by (simp only: mult_le_cancel_right_pos)
  moreover have "real_of_int (c * 2 ^ n) * ?u = real_of_int c"
    using inv u by (simp add: field_simps)
  ultimately show ?thesis
    by (simp only: f64_pos_eq [OF x])
qed

lemma f64_of_int:
  assumes "0 \<le> c" and "c < 2 ^ 53"
  shows "f64 (real_of_int c) = real_of_int c"
proof (cases "c = 0")
  case True
  then show ?thesis by (simp add: f64_def)
next
  case False
  with assms have c: "0 < c" by simp
  then have x: "0 < real_of_int c" by simp
  from f64_le_int [OF x order_refl assms(2)] f64_ge_int [OF c order_refl assms(2)]
  show ?thesis by linarith
qed

lemma on_gcf_fields [simp]:
  "heap (on_gcf f s) = heap s" "fs (on_gcf f s) = fs s"
  "stdout (on_gcf f s) = stdout s" "nxt (on_gcf f s) = nxt s"
  by (simp_all add: on_gcf_def split: list.splits)

lemma on_gcf_Cons [simp]: "on_gcf f (s\<lparr>figs := g # gs\<rparr>) = s\<lparr>figs := f g # gs\<rparr>"
  by (simp add: on_gcf_def)

lemmas plt_defs = plt_figure_def plt_plot_def plt_title_def plt_xlabel_def plt_ylabel_def
  plt_legend_def plt_grid_def plt_xscale_def plt_yscale_def plt_xticks_def plt_close_def

lemma dirname_results [simp]:
  "dirname ''results/TimingCost.png'' = ''results''"
  "dirname ''results/BandwidthUsage_Msg.png'' = ''results''"
  "dirname ''results/BandwidthUsage_Byte.png'' = ''results''"
  "dirname ''results/ComplTimeDiff.png'' = ''results''"
  by (simp_all add: dirname_def)

lemma plot_timing_cost_finish:
  "plot_timing_cost i t s =
     finish_plot (chart TimingCost ''Timing Cost'' ''Timing Cost (Ticks)'' (heap s i) (heap s t))
       ''results/TimingCost.png'' (map CompNodes (heap s i)) (map CompNodes (heap s t)) s"
  by (auto simp add: plot_timing_cost_def plt_defs plt_savefig_def and_then_def Let_def
      new_figure_def chart_def finish_plot_def split: sum.splits)

lemma plot_bandwidth_usage_msg_finish:
  "plot_bandwidth_usage_msg i t s =
     finish_plot (chart BandwidthUsage_Msg ''Bandwidth Usage (Message Based)''
         ''Bandwidth Usage (Messages)'' (heap s i) (heap s t))
       ''results/BandwidthUsage_Msg.png'' (map CompNodes (heap s i)) (map CompNodes (heap s t)) s"
  by (auto simp add: plot_bandwidth_usage_msg_def plt_defs plt_savefig_def and_then_def Let_def
      new_figure_def chart_def finish_plot_def split: sum.splits)

lemma plot_bandwidth_usage_byte_finish:
  "plot_bandwidth_usage_byte i t s =
     finish_plot (chart BandwidthUsage_Byte ''Bandwidth Usage''
         ''Bandwidth Usage (Bytes)'' (heap s i) (heap s t))
       ''results/BandwidthUsage_Byte.png'' (map CompNodes (heap s i)) (map CompNodes (heap s t)) s"
  by (auto simp add: plot_bandwidth_usage_byte_def plt_defs plt_savefig_def and_then_def Let_def
      new_figure_def chart_def finish_plot_def split: sum.splits)

lemma plot_compl_time_diff_finish:
  "plot_compl_time_diff i t s =
     finish_plot (chart ComplTimeDiff ''Completion Time Variation''
         ''Max. Completion Time Difference (Ticks)'' (heap s i) (heap s t))
       ''results/ComplTimeDiff.png'' (map CompNodes (heap s i)) (map CompNodes (heap s t)) s"
  by (auto simp add: plot_compl_time_diff_def plt_defs plt_savefig_def and_then_def Let_def
      new_figure_def chart_def finish_plot_def split: sum.splits)

lemma py_min_fin: "py_min (Fin (real_of_int a)) (Fin (real_of_int b)) = Fin (real_of_int (min a b))"
  by (simp add: py_min_def fl_lt_def min_def)

lemma py_max_fin: "py_max (Fin (real_of_int a)) (Fin (real_of_int b)) = Fin (real_of_int (max a b))"
  by (simp add: py_max_def max_def)

lemma py_min_series:
  assumes "xs \<noteq> []"
  shows "py_min (series_min xs) (series_min ys) = Fin (real_of_int (Min (set (xs @ ys))))"
proof (cases "ys = []")
  case True
  then show ?thesis using assms by (simp add: series_min_def py_min_def fl_lt_def)
next
  case False
  with assms have "Min (set (xs @ ys)) = min (Min (set xs)) (Min (set ys))"
    by (simp add: Min_Un)
  then show ?thesis using assms False by (simp only: series_min_def py_min_fin if_False)
qed

lemma py_max_series:
  assumes "xs \<noteq> []"
  shows "py_max (series_max xs) (series_max ys) = Fin (real_of_int (Max (set (xs @ ys))))"
proof (cases "ys = []")
  case True
  then show ?thesis using assms by (simp add: series_max_def py_max_def)
next
  case False
  with assms have "Max (set (xs @ ys)) = max (Max (set xs)) (Max (set ys))"
    by (simp add: Max_Un)
  then show ?thesis using assms False by (simp only: series_max_def py_max_fin if_False)
qed

lemma py_min_empty: "py_min (series_min []) b = NaN"
  by (simp add: py_min_def series_min_def fl_lt_def)
lemma py_max_empty: "py_max (series_max []) b = NaN"
  by (cases b) (simp_all add: py_max_def series_max_def)

lemma logspace_fin:
  "np_logspace (Fin a) (Fin b) 10 =
     map (\<lambda>i. Fin (f64 (10 powr (real i * ((b - a) / 9) + a)))) [0..<9] @
       [Fin (f64 (10 powr b))]"
  by (simp add: np_logspace_def np_linspace_def Let_def fl_sub_def upt_rec)

lemma logspace_nan: "\<exists>ts. np_logspace NaN b 10 = NaN # ts"
  by (cases b) (simp_all add: np_logspace_def np_linspace_def Let_def fl_sub_def upt_rec)

lemma tick_labels_fin:
  "tick_labels (map Fin vs) = Inr (map (\<lambda>x. format_thousands (if 0 \<le> x then \<lfloor>x\<rfloor> else \<lceil>x\<rceil>)) vs)"
  by (induction vs) simp_all

lemma tick_labels_empty_inc: "tick_labels (comp_node_ticks [] ys) = Inl ValueError"
  using logspace_nan[of "np_log10 (py_max NaN (series_max ys))"]
  by (auto simp add: py_min_empty py_max_empty series_max_def series_min_def py_min_def fl_lt_def )

lemma finish_plot_heap: "heap (snd (finish_plot g p xs ys s)) = heap s"
  "nxt (snd (finish_plot g p xs ys s)) = nxt s"
  "stdout (snd (finish_plot g p xs ys s)) = stdout s"
  by (simp_all add: finish_plot_def Let_def split: sum.splits)

lemmas plot_finish = plot_timing_cost_finish plot_bandwidth_usage_msg_finish
  plot_bandwidth_usage_byte_finish plot_compl_time_diff_finish

lemma and_then_heap:
  "(\<And>s'. heap (snd (f s')) = heap s') \<Longrightarrow> heap (snd (and_then r f)) = heap (snd r)"
  by (cases r) (auto simp: and_then_def split: option.splits)

lemma visualize_data_heap:
  assumes "read_csv p s = Inr df"
  shows "heap (snd (visualize_data p s)) =
      (heap s)(nxt s := df,
               Suc (nxt s) := getitem_mask df (eq_scalar (map INC df) 1),
               Suc (Suc (nxt s)) := getitem_mask df (eq_scalar (map INC df) 0))"
proof -
  have ex: "os_path_exists p s"
    using assms by (auto simp: read_csv_def os_path_exists_def split: option.splits)
  show ?thesis
    using assms ex
    by (simp add: visualize_data_def new_frame_def Let_def and_then_heap plot_finish
        finish_plot_heap os_makedirs_def)
qed

lemma getitem_mask_filter:
  "getitem_mask df (eq_scalar (map INC df) v) = filter (\<lambda>r. INC r = v) df"
  by (induction df) (simp_all add: getitem_mask_def eq_scalar_def)

lemma and_then_NoneE:
  assumes "and_then r f = (None, s')"
  obtains s1 where "r = (None, s1)" and "f s1 = (None, s')"
  using assms by (cases r) (auto simp: and_then_def split: option.splits)

lemma finish_plot_ok:
  assumes "finish_plot g p xs ys s = (None, s')"
  shows "fs s ''results'' = Some Dir \<and> fs s p \<noteq> Some Dir \<and>
         (\<exists>labels. tick_labels (comp_node_ticks xs ys) = Inr labels \<and>
            s' = s\<lparr>fs := (fs s)(p \<mapsto> File (Png (g\<lparr>xticks := Some (comp_node_ticks xs ys, labels)\<rparr>)))\<rparr>)"
  using assms by (auto simp: finish_plot_def Let_def split: sum.splits if_splits)

lemma finish_plot_ok_fs:
  assumes "finish_plot g p xs ys s = (None, s')"
  shows "fs s ''results'' = Some Dir \<and> heap s' = heap s \<and>
         (\<exists>g'. fs s' = (fs s)(p \<mapsto> File (Png g')) \<and> title g' = title g \<and>
            (\<exists>labels. xticks g' = Some (comp_node_ticks xs ys, labels)))"
  using finish_plot_ok [OF assms] by auto

lemma visualize_data_ok_fs:
  assumes "visualize_data p s = (None, s')"
  shows "(fs s ''results'' = None \<or> fs s ''results'' = Some Dir) \<and>
         (\<exists>g1 g2 g3 g4.
            fs s' = (fs s)(''results'' \<mapsto> Dir,
                           ''results/TimingCost.png'' \<mapsto> File (Png g1),
                           ''results/BandwidthUsage_Msg.png'' \<mapsto> File (Png g2),
                           ''results/BandwidthUsage_Byte.png'' \<mapsto> File (Png g3),
                           ''results/ComplTimeDiff.png'' \<mapsto> File (Png g4)) \<and>
            title g1 = ''Timing Cost'' \<and> title g2 = ''Bandwidth Usage (Message Based)'' \<and>
            title g3 = ''Bandwidth Usage'' \<and> title g4 = ''Completion Time Variation'')"
proof -
  from assms have ex: "os_path_exists p s"
    by (auto simp: visualize_data_def sys_exit_def split: if_splits)
  with assms obtain df where rd: "read_csv p s = Inr df"
    by (cases "read_csv p s") (auto simp: visualize_data_def)
  define s3 where "s3 = s\<lparr>heap := (heap s)(nxt s := df,
      Suc (nxt s) := getitem_mask df (eq_scalar (map INC df) 1),
      Suc (Suc (nxt s)) := getitem_mask df (eq_scalar (map INC df) 0)),
      nxt := Suc (Suc (Suc (nxt s)))\<rparr>"
  define i where "i = Suc (nxt s)"
  define t where "t = Suc (Suc (nxt s))"
  have run: "and_then (if \<not> os_path_exists ''results'' s3 then os_makedirs ''results'' s3 else (None, s3))
       (\<lambda>s. and_then (plot_timing_cost i t s)
       (\<lambda>s. and_then (plot_bandwidth_usage_msg i t s)
       (\<lambda>s. and_then (plot_bandwidth_usage_byte i t s)
       (\<lambda>s. plot_compl_time_diff i t s)))) = (None, s')"
    using assms ex rd
    by (simp add: visualize_data_def new_frame_def Let_def s3_def i_def t_def
        split del: if_split cong: if_cong)
  from run obtain sa where
    mk: "(if \<not> os_path_exists ''results'' s3 then os_makedirs ''results'' s3 else (None, s3)) = (None, sa)"
    and r1: "and_then (plot_timing_cost i t sa)
       (\<lambda>s. and_then (plot_bandwidth_usage_msg i t s)
       (\<lambda>s. and_then (plot_bandwidth_usage_byte i t s)
       (\<lambda>s. plot_compl_time_diff i t s))) = (None, s')"
    by (rule and_then_NoneE)
  from r1 obtain s1 where p1: "plot_timing_cost i t sa = (None, s1)"
    and r2: "and_then (plot_bandwidth_usage_msg i t s1)
       (\<lambda>s. and_then (plot_bandwidth_usage_byte i t s)
       (\<lambda>s. plot_compl_time_diff i t s)) = (None, s')"
    by (rule and_then_NoneE)
  from r2 obtain s2 where p2: "plot_bandwidth_usage_msg i t s1 = (None, s2)"
    and r3: "and_then (plot_bandwidth_usage_byte i t s2)
       (\<lambda>s. plot_compl_time_diff i t s) = (None, s')"
    by (rule and_then_NoneE)
  from r3 obtain s4 where p3: "plot_bandwidth_usage_byte i t s2 = (None, s4)"
    and p4: "plot_compl_time_diff i t s4 = (None, s')"
    by (rule and_then_NoneE)
  have fsa: "fs sa = (fs s)(''results'' \<mapsto> Dir)" and
    pre: "fs s ''results'' = None \<or> fs s ''results'' = Some Dir"
    using mk finish_plot_ok_fs [OF p1 [unfolded plot_finish]]
    by (auto simp: os_path_exists_def os_makedirs_def s3_def split: if_splits)
  from finish_plot_ok_fs [OF p1 [unfolded plot_finish]] obtain g1 where
    f1: "fs s1 = (fs sa)(''results/TimingCost.png'' \<mapsto> File (Png g1))" and t1: "title g1 = ''Timing Cost''"
    by (auto simp: chart_def)
  from finish_plot_ok_fs [OF p2 [unfolded plot_finish]] obtain g2 where
    f2: "fs s2 = (fs s1)(''results/BandwidthUsage_Msg.png'' \<mapsto> File (Png g2))"
    and t2: "title g2 = ''Bandwidth Usage (Message Based)''"
    by (auto simp: chart_def)
  from finish_plot_ok_fs [OF p3 [unfolded plot_finish]] obtain g3 where
    f3: "fs s4 = (fs s2)(''results/BandwidthUsage_Byte.png'' \<mapsto> File (Png g3))"
    and t3: "title g3 = ''Bandwidth Usage''"
    by (auto simp: chart_def)
  from finish_plot_ok_fs [OF p4 [unfolded plot_finish]] obtain g4 where
    f4: "fs s' = (fs s4)(''results/ComplTimeDiff.png'' \<mapsto> File (Png g4))"
    and t4: "title g4 = ''Completion Time Variation''"
    by (auto simp: chart_def)
  show ?thesis
    using pre fsa f1 f2 f3 f4 t1 t2 t3 t4 by auto
qed

lemma comp_node_ticks_pos:
  assumes "xs \<noteq> []" and "0 < Min (set (xs @ ys))"
  shows "comp_node_ticks xs ys =
     map Fin (map (\<lambda>k. f64 (10 powr (real k *
                 ((f64 (log 10 (real_of_int (Max (set (xs @ ys))))) -
                   f64 (log 10 (real_of_int (Min (set (xs @ ys)))))) / 9) +
                 f64 (log 10 (real_of_int (Min (set (xs @ ys)))))))) [0..<9] @
              [f64 (10 powr f64 (log 10 (real_of_int (Max (set (xs @ ys))))))])"
proof -
  have "Min (set (xs @ ys)) \<le> Max (set (xs @ ys))"
    using assms(1) by (intro Min_le Max_in) auto
  with assms(2) have hi: "0 < Max (set (xs @ ys))" by linarith
  show ?thesis
    using assms(2) hi
    by (simp only: py_min_series [OF assms(1)] py_max_series [OF assms(1)])
       (simp add: logspace_fin)
qed

lemma tick_labels_pos:
  assumes "xs \<noteq> []" and "0 < Min (set (xs @ ys))"
  shows "\<exists>labels. tick_labels (comp_node_ticks xs ys) = Inr labels"
  by (simp only: comp_node_ticks_pos [OF assms] tick_labels_fin) blast

lemma finish_plot_success:
  assumes "xs \<noteq> []" and "0 < Min (set (xs @ ys))"
    and "fs s ''results'' = Some Dir" and "fs s p \<noteq> Some Dir"
  shows "fst (finish_plot g p xs ys s) = None"
proof -
  from tick_labels_pos [OF assms(1,2)] obtain labels where
    "tick_labels (comp_node_ticks xs ys) = Inr labels" ..
  then show ?thesis
    using assms(3,4) by (simp add: finish_plot_def Let_def)
qed

lemma and_then_fst_None:
  "fst r = None \<Longrightarrow> fst (f (snd r)) = None \<Longrightarrow> fst (and_then r f) = None"
  by (cases r) (simp add: and_then_def)

lemma and_then_None: "and_then (None, s) f = f s"
  by (simp add: and_then_def)

lemma finish_plot_dirs:
  "(fs (snd (finish_plot g p xs ys s)) q = Some Dir) = (fs s q = Some Dir)"
  by (simp add: finish_plot_def Let_def split: sum.splits)

lemma plot_dirs:
  "(fs (snd (plot_timing_cost i t s)) q = Some Dir) = (fs s q = Some Dir)"
  "(fs (snd (plot_bandwidth_usage_msg i t s)) q = Some Dir) = (fs s q = Some Dir)"
  "(fs (snd (plot_bandwidth_usage_byte i t s)) q = Some Dir) = (fs s q = Some Dir)"
  "(fs (snd (plot_compl_time_diff i t s)) q = Some Dir) = (fs s q = Some Dir)"
  by (simp_all add: plot_finish finish_plot_dirs)

lemma plot_heap:
  "heap (snd (plot_timing_cost i t s)) = heap s"
  "heap (snd (plot_bandwidth_usage_msg i t s)) = heap s"
  "heap (snd (plot_bandwidth_usage_byte i t s)) = heap s"
  "heap (snd (plot_compl_time_diff i t s)) = heap s"
  by (simp_all add: plot_finish finish_plot_heap)

lemma plot_success:
  assumes "heap s i \<noteq> []"
    and "0 < Min (set (map CompNodes (heap s i) @ map CompNodes (heap s t)))"
    and "fs s ''results'' = Some Dir"
  shows "fs s ''results/TimingCost.png'' \<noteq> Some Dir \<Longrightarrow> fst (plot_timing_cost i t s) = None"
    and "fs s ''results/BandwidthUsage_Msg.png'' \<noteq> Some Dir \<Longrightarrow>
           fst (plot_bandwidth_usage_msg i t s) = None"
    and "fs s ''results/BandwidthUsage_Byte.png'' \<noteq> Some Dir \<Longrightarrow>
           fst (plot_bandwidth_usage_byte i t s) = None"
    and "fs s ''results/ComplTimeDiff.png'' \<noteq> Some Dir \<Longrightarrow>
           fst (plot_compl_time_diff i t s) = None"
  using assms by (simp_all add: plot_finish finish_plot_success)

lemma four_plots_success:
  assumes ne: "heap s i \<noteq> []"
    and lo: "0 < Min (set (map CompNodes (heap s i) @ map CompNodes (heap s t)))"
    and dir: "fs s ''results'' = Some Dir"
    and out: "fs s ''results/TimingCost.png'' \<noteq> Some Dir"
      "fs s ''results/BandwidthUsage_Msg.png'' \<noteq> Some Dir"
      "fs s ''results/BandwidthUsage_Byte.png'' \<noteq> Some Dir"
      "fs s ''results/ComplTimeDiff.png'' \<noteq> Some Dir"
  shows "fst (and_then (plot_timing_cost i t s)
           (\<lambda>s. and_then (plot_bandwidth_usage_msg i t s)
           (\<lambda>s. and_then (plot_bandwidth_usage_byte i t s)
           (\<lambda>s. plot_compl_time_diff i t s)))) = None"
proof -
  define s1 where "s1 = snd (plot_timing_cost i t s)"
  define s2 where "s2 = snd (plot_bandwidth_usage_msg i t s1)"
  define s3 where "s3 = snd (plot_bandwidth_usage_byte i t s2)"
  have h: "heap s1 = heap s" "heap s2 = heap s" "heap s3 = heap s"
    by (simp_all add: s1_def s2_def s3_def plot_heap)
  have d: "(fs s1 q = Some Dir) = (fs s q = Some Dir)"
    "(fs s2 q = Some Dir) = (fs s q = Some Dir)"
    "(fs s3 q = Some Dir) = (fs s q = Some Dir)" for q
    by (simp_all add: s1_def s2_def s3_def plot_dirs)
  have p1: "fst (plot_timing_cost i t s) = None"
    using ne lo dir out by (intro plot_success)
  have p2: "fst (plot_bandwidth_usage_msg i t s1) = None"
    using ne lo dir out by (intro plot_success) (simp_all add: h d)
  have p3: "fst (plot_bandwidth_usage_byte i t s2) = None"
    using ne lo dir out by (intro plot_success) (simp_all add: h d)
  have p4: "fst (plot_compl_time_diff i t s3) = None"
    using ne lo dir out by (intro plot_success) (simp_all add: h d)
  show ?thesis
    apply (rule and_then_fst_None [OF p1])
    apply (rule and_then_fst_None [OF p2 [unfolded s1_def]])
    apply (rule and_then_fst_None [OF p3 [unfolded s2_def s1_def]])
    apply (rule p4 [unfolded s3_def s2_def s1_def])
    done
qed

lemma visualize_data_success:
  assumes rd: "read_csv p s = Inr df"
    and ne: "filter (\<lambda>r. INC r = 1) df \<noteq> []"
    and pos: "\<forall>r\<in>set df. INC r = 1 \<or> INC r = 0 \<longrightarrow> 0 < CompNodes r"
    and dir: "fs s ''results'' = None \<or> fs s ''results'' = Some Dir"
    and out: "fs s ''results/TimingCost.png'' \<noteq> Some Dir"
      "fs s ''results/BandwidthUsage_Msg.png'' \<noteq> Some Dir"
      "fs s ''results/BandwidthUsage_Byte.png'' \<noteq> Some Dir"
      "fs s ''results/ComplTimeDiff.png'' \<noteq> Some Dir"
  shows "fst (visualize_data p s) = None"
proof -
  define xs where "xs = map CompNodes (filter (\<lambda>r. INC r = 1) df)"
  define ys where "ys = map CompNodes (filter (\<lambda>r. INC r = 0) df)"
  define s3 where "s3 = s\<lparr>heap := (heap s)(nxt s := df,
      Suc (nxt s) := filter (\<lambda>r. INC r = 1) df,
      Suc (Suc (nxt s)) := filter (\<lambda>r. INC r = 0) df),
      nxt := Suc (Suc (Suc (nxt s)))\<rparr>"
  define sa where "sa = s3\<lparr>fs := (fs s)(''results'' \<mapsto> Dir)\<rparr>"
  have ex: "os_path_exists p s"
    using rd by (auto simp: read_csv_def os_path_exists_def split: option.splits)
  have xs: "xs \<noteq> []"
    using ne by (simp add: xs_def)
  then have "Min (set (xs @ ys)) \<in> set (xs @ ys)"
    by (intro Min_in) auto
  then have lo: "0 < Min (set (xs @ ys))"
    using pos by (auto simp: xs_def ys_def)
  have mk: "(if \<not> os_path_exists ''results'' s3 then os_makedirs ''results'' s3 else (None, s3))
      = (None, sa)"
    using dir by (auto simp: os_path_exists_def os_makedirs_def s3_def sa_def map_upd_triv)
  have run: "visualize_data p s =
     and_then (None, sa)
       (\<lambda>s. and_then (plot_timing_cost (Suc (nxt s0)) (Suc (Suc (nxt s0))) s)
       (\<lambda>s. and_then (plot_bandwidth_usage_msg (Suc (nxt s0)) (Suc (Suc (nxt s0))) s)
       (\<lambda>s. and_then (plot_bandwidth_usage_byte (Suc (nxt s0)) (Suc (Suc (nxt s0))) s)
       (\<lambda>s. plot_compl_time_diff (Suc (nxt s0)) (Suc (Suc (nxt s0))) s))))"
    if "s0 = s" for s0
    unfolding mk [symmetric] using rd ex that
    by (simp add: visualize_data_def new_frame_def Let_def s3_def getitem_mask_filter
        split del: if_split cong: if_cong)
  have hi: "heap sa (Suc (nxt s)) = filter (\<lambda>r. INC r = 1) df"
    and ht: "heap sa (Suc (Suc (nxt s))) = filter (\<lambda>r. INC r = 0) df"
    by (simp_all add: sa_def s3_def)
  show ?thesis
    unfolding run [OF refl] and_then_None
    by (rule four_plots_success)
      (use xs lo out in \<open>simp_all add: hi ht xs_def ys_def, simp_all add: sa_def s3_def\<close>)
qed

lemma plot_one_file:
  assumes "fst (finish_plot g p xs ys s) = None"
  shows "(\<exists>g'. fs (snd (finish_plot g p xs ys s)) p = Some (File (Png g'))) \<and>
         (\<forall>q. q \<noteq> p \<longrightarrow> fs (snd (finish_plot g p xs ys s)) q = fs s q)"
  using finish_plot_ok_fs [of g p xs ys s "snd (finish_plot g p xs ys s)"] assms
  by (auto simp: prod_eq_iff)

lemma log1000: "log 10 1000 = 3"
proof -
  have "(1000::real) = 10 powr 3" by simp
  then show ?thesis by (simp only: log_powr_cancel)
qed

lemma finish_plot_tick_errors:
  assumes "tick_labels (comp_node_ticks xs ys) = Inr labels"
  shows "fst (finish_plot g p xs ys s) \<noteq> Some ValueError"
    and "fst (finish_plot g p xs ys s) \<noteq> Some OverflowError"
  using assms by (simp_all add: finish_plot_def Let_def)

lemma powr_ninths:
  assumes "0 \<le> t"
  shows "10 ^ n \<le> t ^ 9 \<Longrightarrow> 10 powr (real n / 9) \<le> t"
    and "t ^ 9 \<le> 10 ^ n \<Longrightarrow> t \<le> 10 powr (real n / 9)"
proof -
  have "(10 powr (real n / 9)) ^ 9 = (10::real) powr (of_nat 9 * (real n / 9))"
    by (rule powr_power) simp
  also have "\<dots> = 10 powr real n" by simp
  also have "\<dots> = 10 ^ n" by (simp add: powr_realpow)
  finally have nine: "(10 powr (real n / 9)) ^ 9 = (10::real) ^ n" .
  show "10 powr (real n / 9) \<le> t" if "10 ^ n \<le> t ^ 9"
  proof (rule power_le_imp_le_base [of _ 8])
    show "(10 powr (real n / 9)) ^ Suc 8 \<le> t ^ Suc 8"
      using that nine by simp
    show "0 \<le> t" by (rule assms)
  qed
  show "t \<le> 10 powr (real n / 9)" if "t ^ 9 \<le> 10 ^ n"
  proof (rule power_le_imp_le_base [of _ 8])
    show "t ^ Suc 8 \<le> (10 powr (real n / 9)) ^ Suc 8"
      using that nine by simp
    show "0 \<le> 10 powr (real n / 9)" by simp
  qed
qed


lemma decade_tick:
  assumes "0 < lo" and "0 < hi" and "hi < 2 ^ 53"
    and "real_of_int lo ^ 9 \<le> 10 ^ (9 + 2 * k)" and "10 ^ (9 + 2 * k) \<le> real_of_int hi ^ 9"
  shows "real_of_int lo \<le> f64 (10 powr (1 + 2 * real k / 9)) \<and>
         f64 (10 powr (1 + 2 * real k / 9)) \<le> real_of_int hi"
proof -
  have e: "1 + 2 * real k / 9 = real (9 + 2 * k) / 9"
    by simp
  have lob: "real_of_int lo \<le> 10 powr (1 + 2 * real k / 9)"
    unfolding e using assms(1) by (intro powr_ninths(2) assms(4)) simp
  have hib: "10 powr (1 + 2 * real k / 9) \<le> real_of_int hi"
    unfolding e using assms(2) by (intro powr_ninths(1) assms(5)) simp
  have lo2: "lo < 2 ^ 53"
    using lob hib assms(3) by linarith
  have pos: "0 < 10 powr (1 + 2 * real k / 9)"
    by simp
  show ?thesis
    using f64_ge_int [OF assms(1) lob lo2] f64_le_int [OF pos hib assms(3)]
    by simp
qed

lemma f64_small: "f64 1 = 1" "f64 3 = 3" "f64 10 = 10" "f64 1000 = 1000"
  using f64_of_int [of 1] f64_of_int [of 3] f64_of_int [of 10] f64_of_int [of 1000]
  by simp_all

lemma decade_bounds:
  fixes T :: "nat \<Rightarrow> real"
  defines "T \<equiv> \<lambda>k. f64 (10 powr (1 + 2 * real k / 9))"
  shows "T 0 = 10" and "12 \<le> T 1 \<and> T 1 \<le> 20" and "21 \<le> T 2 \<and> T 2 \<le> 30"
    and "31 \<le> T 3 \<and> T 3 \<le> 50" and "51 \<le> T 4 \<and> T 4 \<le> 100"
    and "101 \<le> T 5 \<and> T 5 \<le> 150" and "151 \<le> T 6 \<and> T 6 \<le> 250"
    and "251 \<le> T 7 \<and> T 7 \<le> 400" and "401 \<le> T 8 \<and> T 8 \<le> 700" and "T 9 = 1000"
proof -
  show "T 0 = 10" "T 9 = 1000"
    by (simp_all add: T_def f64_small)
  show "12 \<le> T 1 \<and> T 1 \<le> 20"
    using decade_tick [of 12 20 1] by (simp add: T_def)
  show "21 \<le> T 2 \<and> T 2 \<le> 30"
    using decade_tick [of 21 30 2] by (simp add: T_def)
  show "31 \<le> T 3 \<and> T 3 \<le> 50"
    using decade_tick [of 31 50 3] by (simp add: T_def)
  show "51 \<le> T 4 \<and> T 4 \<le> 100"
    using decade_tick [of 51 100 4] by (simp add: T_def)
  show "101 \<le> T 5 \<and> T 5 \<le> 150"
    using decade_tick [of 101 150 5] by (simp add: T_def)
  show "151 \<le> T 6 \<and> T 6 \<le> 250"
    using decade_tick [of 151 250 6] by (simp add: T_def)
  show "251 \<le> T 7 \<and> T 7 \<le> 400"
    using decade_tick [of 251 400 7] by (simp add: T_def)
  show "401 \<le> T 8 \<and> T 8 \<le> 700"
    using decade_tick [of 401 700 8] by (simp add: T_def)
qed

lemma ticks_10_1000:
  assumes "xs \<noteq> []" and "Min (set (xs @ ys)) = 10" and "Max (set (xs @ ys)) = 1000"
  shows "comp_node_ticks xs ys =
           map Fin (map (\<lambda>k. f64 (10 powr (1 + 2 * real k / 9))) [0..<10])"
proof -
  have lo: "0 < Min (set (xs @ ys))" using assms(2) by simp
  have "[0..<10] = [0..<9] @ [9::nat]" by (simp add: upt_rec)
  then show ?thesis
    by (simp only: comp_node_ticks_pos [OF assms(1) lo] assms(2,3))
       (simp add: log1000 f64_small algebra_simps)
qed

lemma decade_list:
  "map (\<lambda>k. f64 (10 powr (1 + 2 * real k / 9))) [0..<10] =
     [f64 (10 powr (1 + 2 * real (0::nat) / 9)), f64 (10 powr (1 + 2 * real (1::nat) / 9)),
      f64 (10 powr (1 + 2 * real (2::nat) / 9)), f64 (10 powr (1 + 2 * real (3::nat) / 9)),
      f64 (10 powr (1 + 2 * real (4::nat) / 9)), f64 (10 powr (1 + 2 * real (5::nat) / 9)),
      f64 (10 powr (1 + 2 * real (6::nat) / 9)), f64 (10 powr (1 + 2 * real (7::nat) / 9)),
      f64 (10 powr (1 + 2 * real (8::nat) / 9)), f64 (10 powr (1 + 2 * real (9::nat) / 9))]"
  by (simp add: upt_rec)

lemma decade_sorted:
  "sorted_wrt (<) (map (\<lambda>k. f64 (10 powr (1 + 2 * real k / 9))) [0..<10])"
  unfolding decade_list using decade_bounds by simp

lemma decade_ends:
  "hd (map (\<lambda>k. f64 (10 powr (1 + 2 * real k / 9))) [0..<10]) = 10"
  "last (map (\<lambda>k. f64 (10 powr (1 + 2 * real k / 9))) [0..<10]) = 1000"
  unfolding decade_list using decade_bounds(1,10) by simp_all

lemma decade_labels:
  "tick_labels (map Fin (map (\<lambda>k. f64 (10 powr (1 + 2 * real k / 9))) [0..<10])) = Inr labels \<Longrightarrow>
   length labels = 10 \<and> hd labels = ''10'' \<and> last labels = ''1,000''"
proof -
  assume "tick_labels (map Fin (map (\<lambda>k. f64 (10 powr (1 + 2 * real k / 9))) [0..<10])) =
            Inr labels"
  then have "labels = map (\<lambda>x. format_thousands (if 0 \<le> x then \<lfloor>x\<rfloor> else \<lceil>x\<rceil>))
                        (map (\<lambda>k. f64 (10 powr (1 + 2 * real k / 9))) [0..<10])"
    unfolding tick_labels_fin by simp
  then show ?thesis
    by (simp add: hd_map last_map format_thousands_def digits.simps f64_small)
qed

lemma finish_plot_empty_inc:
  "finish_plot g p [] ys s = (Some ValueError, s\<lparr>figs := g # figs s\<rparr>)"
  by (simp only: finish_plot_def tick_labels_empty_inc sum.case)



lemma agree_off_fs:
  assumes "agree_off p i t a b"
  shows "(fs a q = None) = (fs b q = None)" and "(fs a q = Some Dir) = (fs b q = Some Dir)"
proof -
  from assms have "fs a q = fs b q \<or> (\<exists>c d. fs a q = Some (File c) \<and> fs b q = Some (File d))"
    unfolding agree_off_def by blast
  then show "(fs a q = None) = (fs b q = None)" and "(fs a q = Some Dir) = (fs b q = Some Dir)"
    by auto
qed

lemma finish_plot_agree:
  assumes "agree_off p0 i t a b"
  shows "fst (finish_plot g p xs ys a) = fst (finish_plot g p xs ys b) \<and>
         agree_off p0 i t (snd (finish_plot g p xs ys a)) (snd (finish_plot g p xs ys b))"
proof (cases "tick_labels (comp_node_ticks xs ys)")
  case (Inl e)
  then show ?thesis using assms by (simp add: finish_plot_def agree_off_def)
next
  case (Inr labels)
  show ?thesis
    using assms agree_off_fs [OF assms, of "''results''"] agree_off_fs [OF assms, of p]
    by (auto simp add: finish_plot_def Inr Let_def agree_off_def)
qed

lemma plot_agree:
  assumes "agree_off p0 i t a b"
  shows "fst (plot_timing_cost i t a) = fst (plot_timing_cost i t b) \<and>
         agree_off p0 i t (snd (plot_timing_cost i t a)) (snd (plot_timing_cost i t b))"
    and "fst (plot_bandwidth_usage_msg i t a) = fst (plot_bandwidth_usage_msg i t b) \<and>
         agree_off p0 i t (snd (plot_bandwidth_usage_msg i t a)) (snd (plot_bandwidth_usage_msg i t b))"
    and "fst (plot_bandwidth_usage_byte i t a) = fst (plot_bandwidth_usage_byte i t b) \<and>
         agree_off p0 i t (snd (plot_bandwidth_usage_byte i t a)) (snd (plot_bandwidth_usage_byte i t b))"
    and "fst (plot_compl_time_diff i t a) = fst (plot_compl_time_diff i t b) \<and>
         agree_off p0 i t (snd (plot_compl_time_diff i t a)) (snd (plot_compl_time_diff i t b))"
proof -
  have h: "heap a i = heap b i" "heap a t = heap b t"
    using assms by (simp_all add: agree_off_def)
  show "fst (plot_timing_cost i t a) = fst (plot_timing_cost i t b) \<and>
         agree_off p0 i t (snd (plot_timing_cost i t a)) (snd (plot_timing_cost i t b))"
    and "fst (plot_bandwidth_usage_msg i t a) = fst (plot_bandwidth_usage_msg i t b) \<and>
         agree_off p0 i t (snd (plot_bandwidth_usage_msg i t a)) (snd (plot_bandwidth_usage_msg i t b))"
    and "fst (plot_bandwidth_usage_byte i t a) = fst (plot_bandwidth_usage_byte i t b) \<and>
         agree_off p0 i t (snd (plot_bandwidth_usage_byte i t a)) (snd (plot_bandwidth_usage_byte i t b))"
    and "fst (plot_compl_time_diff i t a) = fst (plot_compl_time_diff i t b) \<and>
         agree_off p0 i t (snd (plot_compl_time_diff i t a)) (snd (plot_compl_time_diff i t b))"
    unfolding plot_finish h using finish_plot_agree [OF assms] by blast+
qed

lemma and_then_agree:
  assumes "fst r1 = fst r2 \<and> R (snd r1) (snd r2)"
    and "\<And>a b. R a b \<Longrightarrow> fst (f a) = fst (f b) \<and> R (snd (f a)) (snd (f b))"
  shows "fst (and_then r1 f) = fst (and_then r2 f) \<and>
         R (snd (and_then r1 f)) (snd (and_then r2 f))"
  using assms by (cases r1; cases r2) (auto simp: and_then_def split: option.splits)

lemma four_plots_agree:
  assumes "agree_off p0 i t a b"
  shows "fst (and_then (plot_timing_cost i t a)
           (\<lambda>s. and_then (plot_bandwidth_usage_msg i t s)
           (\<lambda>s. and_then (plot_bandwidth_usage_byte i t s)
           (\<lambda>s. plot_compl_time_diff i t s)))) =
         fst (and_then (plot_timing_cost i t b)
           (\<lambda>s. and_then (plot_bandwidth_usage_msg i t s)
           (\<lambda>s. and_then (plot_bandwidth_usage_byte i t s)
           (\<lambda>s. plot_compl_time_diff i t s)))) \<and>
        agree_off p0 i t (snd (and_then (plot_timing_cost i t a)
           (\<lambda>s. and_then (plot_bandwidth_usage_msg i t s)
           (\<lambda>s. and_then (plot_bandwidth_usage_byte i t s)
           (\<lambda>s. plot_compl_time_diff i t s)))))
           (snd (and_then (plot_timing_cost i t b)
           (\<lambda>s. and_then (plot_bandwidth_usage_msg i t s)
           (\<lambda>s. and_then (plot_bandwidth_usage_byte i t s)
           (\<lambda>s. plot_compl_time_diff i t s)))))"
  by (intro and_then_agree plot_agree assms)

lemma visualize_data_read:
  assumes rd: "read_csv p s = Inr df"
    and s3: "s3 = s\<lparr>heap := (heap s)(nxt s := df,
      Suc (nxt s) := filter (\<lambda>r. INC r = 1) df,
      Suc (Suc (nxt s)) := filter (\<lambda>r. INC r = 0) df),
      nxt := Suc (Suc (Suc (nxt s)))\<rparr>"
    and i: "i = Suc (nxt s)" and t: "t = Suc (Suc (nxt s))"
  shows "visualize_data p s =
     and_then (if \<not> os_path_exists ''results'' s3 then os_makedirs ''results'' s3 else (None, s3))
       (\<lambda>s. and_then (plot_timing_cost i t s)
       (\<lambda>s. and_then (plot_bandwidth_usage_msg i t s)
       (\<lambda>s. and_then (plot_bandwidth_usage_byte i t s)
       (\<lambda>s. plot_compl_time_diff i t s))))"
proof -
  have ex: "os_path_exists p s"
    using rd by (auto simp: read_csv_def os_path_exists_def split: option.splits)
  show ?thesis
    using rd ex
    by (simp add: visualize_data_def new_frame_def Let_def s3 i t getitem_mask_filter
        split del: if_split cong: if_cong)
qed

lemma excluded_rows_no_effect:
  assumes rd: "read_csv p s = Inr df"
  shows "fst (visualize_data p
           (s\<lparr>fs := (fs s)(p \<mapsto> File (Csv (filter (\<lambda>r. INC r = 1 \<or> INC r = 0) df)))\<rparr>)) =
         fst (visualize_data p s)"
proof -
  define df' where "df' = filter (\<lambda>r. INC r = 1 \<or> INC r = 0) df"
  define s2 where "s2 = s\<lparr>fs := (fs s)(p \<mapsto> File (Csv df'))\<rparr>"
  define i where "i = Suc (nxt s)"
  define t where "t = Suc (Suc (nxt s))"
  define a3 where "a3 = s\<lparr>heap := (heap s)(nxt s := df,
      Suc (nxt s) := filter (\<lambda>r. INC r = 1) df,
      Suc (Suc (nxt s)) := filter (\<lambda>r. INC r = 0) df),
      nxt := Suc (Suc (Suc (nxt s)))\<rparr>"
  define b3 where "b3 = s2\<lparr>heap := (heap s2)(nxt s2 := df',
      Suc (nxt s2) := filter (\<lambda>r. INC r = 1) df',
      Suc (Suc (nxt s2)) := filter (\<lambda>r. INC r = 0) df'),
      nxt := Suc (Suc (Suc (nxt s2)))\<rparr>"
  have rd2: "read_csv p s2 = Inr df'"
    by (simp add: read_csv_def s2_def)
  have isfile: "fs s p = Some (File (Csv df))"
    using rd by (auto simp: read_csv_def split: option.splits entry.splits content.splits)
  have n: "nxt s2 = nxt s" "heap s2 = heap s"
    by (simp_all add: s2_def)
  have flt: "filter (\<lambda>r. INC r = 1) df' = filter (\<lambda>r. INC r = 1) df"
    "filter (\<lambda>r. INC r = 0) df' = filter (\<lambda>r. INC r = 0) df"
    by (auto simp: df'_def intro: filter_cong)
  have ag: "agree_off p i t b3 a3"
    using isfile by (auto simp: agree_off_def a3_def b3_def s2_def i_def t_def flt)
  have mk: "fst (if \<not> os_path_exists ''results'' b3 then os_makedirs ''results'' b3 else (None, b3)) =
            fst (if \<not> os_path_exists ''results'' a3 then os_makedirs ''results'' a3 else (None, a3)) \<and>
            agree_off p i t
              (snd (if \<not> os_path_exists ''results'' b3 then os_makedirs ''results'' b3 else (None, b3)))
              (snd (if \<not> os_path_exists ''results'' a3 then os_makedirs ''results'' a3 else (None, a3)))"
    using ag agree_off_fs(1) [OF ag, of "''results''"]
    by (auto simp: os_path_exists_def os_makedirs_def agree_off_def)
  define chain where "chain = (\<lambda>s. and_then (plot_timing_cost i t s)
       (\<lambda>s. and_then (plot_bandwidth_usage_msg i t s)
       (\<lambda>s. and_then (plot_bandwidth_usage_byte i t s)
       (\<lambda>s. plot_compl_time_diff i t s))))"
  have ch: "fst (chain a) = fst (chain b) \<and> agree_off p i t (snd (chain a)) (snd (chain b))"
    if "agree_off p i t a b" for a b
    unfolding chain_def using that by (rule four_plots_agree)
  have va: "visualize_data p s =
      and_then (if \<not> os_path_exists ''results'' a3 then os_makedirs ''results'' a3 else (None, a3))
        chain"
    unfolding chain_def by (rule visualize_data_read [OF rd a3_def i_def t_def])
  have vb: "visualize_data p s2 =
      and_then (if \<not> os_path_exists ''results'' b3 then os_makedirs ''results'' b3 else (None, b3))
        chain"
    unfolding chain_def
    by (rule visualize_data_read [OF rd2 b3_def]) (simp_all add: i_def t_def n)
  have "fst (visualize_data p s2) = fst (visualize_data p s)"
    unfolding va vb
    using and_then_agree [where R = "agree_off p i t" and f = chain, OF mk ch]
    by blast
  then show ?thesis
    by (simp add: s2_def df'_def)
qed

lemma chart_ticks: "xticks (chart metric ttl yl a b) = None"
  by (simp add: chart_def)

lemma drawn_ticks_finish:
  assumes "xticks g = None"
  shows "drawn_ticks (finish_plot g p xs ys s) p =
     (case tick_labels (comp_node_ticks xs ys) of
        Inl e \<Rightarrow> None
      | Inr labels \<Rightarrow> Some (comp_node_ticks xs ys, labels))"
  using assms
  by (simp add: drawn_ticks_def finish_plot_def Let_def saved_figure_def split: sum.splits)

lemma drawn_ticks_plot:
  "drawn_ticks (plot_timing_cost i t s) ''results/TimingCost.png'' =
     (case tick_labels (comp_node_ticks (map CompNodes (heap s i)) (map CompNodes (heap s t))) of
        Inl e \<Rightarrow> None
      | Inr labels \<Rightarrow>
          Some (comp_node_ticks (map CompNodes (heap s i)) (map CompNodes (heap s t)), labels))"
  "drawn_ticks (plot_bandwidth_usage_msg i t s) ''results/BandwidthUsage_Msg.png'' =
     (case tick_labels (comp_node_ticks (map CompNodes (heap s i)) (map CompNodes (heap s t))) of
        Inl e \<Rightarrow> None
      | Inr labels \<Rightarrow>
          Some (comp_node_ticks (map CompNodes (heap s i)) (map CompNodes (heap s t)), labels))"
  "drawn_ticks (plot_bandwidth_usage_byte i t s) ''results/BandwidthUsage_Byte.png'' =
     (case tick_labels (comp_node_ticks (map CompNodes (heap s i)) (map CompNodes (heap s t))) of
        Inl e \<Rightarrow> None
      | Inr labels \<Rightarrow>
          Some (comp_node_ticks (map CompNodes (heap s i)) (map CompNodes (heap s t)), labels))"
  "drawn_ticks (plot_compl_time_diff i t s) ''results/ComplTimeDiff.png'' =
     (case tick_labels (comp_node_ticks (map CompNodes (heap s i)) (map CompNodes (heap s t))) of
        Inl e \<Rightarrow> None
      | Inr labels \<Rightarrow>
          Some (comp_node_ticks (map CompNodes (heap s i)) (map CompNodes (heap s t)), labels))"
  by (simp_all only: plot_finish drawn_ticks_finish [OF chart_ticks])




lemma decade_close:
  "\<bar>f64 (10 powr (1 + 2 * real k / 9)) - 10 powr (1 + 2 * real k / 9)\<bar> \<le>
     10 powr (1 + 2 * real k / 9) / 2 ^ 40"
proof -
  have p: "0 < (10::real) powr (1 + 2 * real k / 9)" by simp
  have "(10::real) powr (1 + 2 * real k / 9) / 2 ^ 53 \<le> 10 powr (1 + 2 * real k / 9) / 2 ^ 40"
    by (intro divide_left_mono) simp_all
  with f64_error [OF p] show ?thesis by linarith
qed

section \<open>Claims\<close>

text \<open>
  C4. When the input path names nothing that exists, the program prints the line
  \<^verbatim>\<open>File not found: <path>\<close> to standard output and exits with status 1. The path is the
  one positional argument, or \<^verbatim>\<open>result.csv\<close> without one. The check comes before the file
  is parsed: the run ends in \<^verbatim>\<open>sys.exit(1)\<close>, not in the FileNotFoundError that
  \<^verbatim>\<open>pd.read_csv\<close> raises on such a path.
\<close>

theorem missing_input_file:
  assumes "length argv \<le> 2"
    and "p = (if length argv = 2 then argv ! 1 else ''result.csv'')"
    and "\<not> os_path_exists p s"
  shows "main argv s =
           (Some (SystemExit 1), s\<lparr>stdout := stdout s @ [''File not found: '' @ p]\<rparr>) \<and>
         exit_status (fst (main argv s)) = 1 \<and>
         read_csv p s = Inl FileNotFoundError"
  using assms
  by (simp add: main_def visualize_data_def sys_exit_def print_def Let_def read_csv_def os_path_exists_def)

theorem missing_input_file_witness:
  "length [''plotResults.py'', ''missing.csv''] \<le> 2 \<and>
   \<not> os_path_exists ''missing.csv'' ex_disk \<and>
   main [''plotResults.py'', ''missing.csv''] ex_disk =
     (Some (SystemExit 1), ex_disk\<lparr>stdout := [''File not found: missing.csv'']\<rparr>) \<and>
   exit_status (fst (main [''plotResults.py'', ''missing.csv''] ex_disk)) = 1"
proof -
  have h: "\<not> os_path_exists ''missing.csv'' ex_disk"
    by (simp add: os_path_exists_def ex_disk_def)
  show ?thesis
    using h missing_input_file [of "[''plotResults.py'', ''missing.csv'']" "''missing.csv''" ex_disk]
    by (simp add: ex_disk_def)
qed

text \<open>
  C5. With two or more positional arguments the program prints the usage line to standard
  output and exits with status 1; with none it runs on \<^verbatim>\<open>result.csv\<close>; with exactly one
  it runs on that argument. \<open>argv\<close> counts the script name, so these are the lengths
  above 2, 1 and 2.
\<close>

theorem main_arguments:
  "(2 < length argv \<longrightarrow>
      main argv s =
        (Some (SystemExit 1),
         s\<lparr>stdout := stdout s @ [''Usage: python plotResults.py [<csv_file_path>]'']\<rparr>) \<and>
      exit_status (fst (main argv s)) = 1) \<and>
   (length argv = 1 \<longrightarrow> main argv s = visualize_data ''result.csv'' s) \<and>
   (length argv = 2 \<longrightarrow> main argv s = visualize_data (argv ! 1) s)"
  by (simp add: main_def sys_exit_def print_def)

theorem main_arguments_witness:
  "2 < length [''plotResults.py'', ''a.csv'', ''b.csv''] \<and>
   main [''plotResults.py'', ''a.csv'', ''b.csv''] ex_disk =
     (Some (SystemExit 1),
      ex_disk\<lparr>stdout := [''Usage: python plotResults.py [<csv_file_path>]'']\<rparr>) \<and>
   exit_status (fst (main [''plotResults.py'', ''a.csv'', ''b.csv''] ex_disk)) = 1 \<and>
   length [''plotResults.py''] = 1 \<and>
   main [''plotResults.py''] ex_disk = visualize_data ''result.csv'' ex_disk \<and>
   length [''plotResults.py'', ''a.csv''] = 2 \<and>
   main [''plotResults.py'', ''a.csv''] ex_disk = visualize_data ''a.csv'' ex_disk"
  using main_arguments [of "[''plotResults.py'', ''a.csv'', ''b.csv'']" ex_disk]
    main_arguments [of "[''plotResults.py'']" ex_disk]
    main_arguments [of "[''plotResults.py'', ''a.csv'']" ex_disk]
  by (simp add: ex_disk_def)

text \<open>
  C9. On the missing-file path the run has no effect on the file system: the directory
  \<^verbatim>\<open>results\<close> is not created and no image is written. Nothing but standard output
  changes: the open figures and the store of tables are as before.
\<close>

theorem no_effects_on_missing_path:
  assumes "\<not> os_path_exists p s"
  shows "fst (visualize_data p s) = Some (SystemExit 1) \<and>
         fs (snd (visualize_data p s)) = fs s \<and>
         figs (snd (visualize_data p s)) = figs s \<and>
         heap (snd (visualize_data p s)) = heap s \<and>
         nxt (snd (visualize_data p s)) = nxt s"
  using assms by (simp add: visualize_data_def sys_exit_def print_def)

theorem no_effects_on_missing_path_witness:
  "\<not> os_path_exists ''missing.csv'' ex_disk \<and>
   fst (visualize_data ''missing.csv'' ex_disk) = Some (SystemExit 1) \<and>
   fs (snd (visualize_data ''missing.csv'' ex_disk)) ''results'' = None \<and>
   fs (snd (visualize_data ''missing.csv'' ex_disk)) ''results/TimingCost.png'' = None"
proof -
  have h: "\<not> os_path_exists ''missing.csv'' ex_disk"
    by (simp add: os_path_exists_def ex_disk_def)
  show ?thesis
    using h no_effects_on_missing_path [OF h]
    by (simp add: ex_disk_def)
qed

text \<open>
  C7. No chart-render call changes a table: after each of the four plot functions, whether
  it returned or raised, the store of DataFrame objects is what it was before, so both
  cohorts keep their rows and field values. \<^verbatim>\<open>visualize_data\<close> passes the same two addresses
  to the four calls, and at the end of a run that got past the read they still hold the
  rows the two filters selected.
\<close>

theorem cohorts_not_mutated:
  "heap (snd (plot_timing_cost i t s)) = heap s \<and>
   heap (snd (plot_bandwidth_usage_msg i t s)) = heap s \<and>
   heap (snd (plot_bandwidth_usage_byte i t s)) = heap s \<and>
   heap (snd (plot_compl_time_diff i t s)) = heap s \<and>
   (read_csv p s = Inr df \<longrightarrow>
      heap (snd (visualize_data p s)) (Suc (nxt s)) =
        getitem_mask df (eq_scalar (map INC df) 1) \<and>
      heap (snd (visualize_data p s)) (Suc (Suc (nxt s))) =
        getitem_mask df (eq_scalar (map INC df) 0))"
  by (simp add: plot_finish finish_plot_heap visualize_data_heap)

theorem cohorts_not_mutated_witness:
  "read_csv ''result.csv'' ex_disk = Inr ex_table \<and>
   heap (snd (visualize_data ''result.csv'' ex_disk)) (Suc 0) = [ex_row 10 1, ex_row 1000 1] \<and>
   heap (snd (visualize_data ''result.csv'' ex_disk)) (Suc (Suc 0)) = [ex_row 10 0, ex_row 100 0]"
proof -
  have h: "read_csv ''result.csv'' ex_disk = Inr ex_table"
    by (simp add: read_csv_def ex_disk_def)
  have n: "nxt ex_disk = 0"
    by (simp add: ex_disk_def)
  show ?thesis
    using h cohorts_not_mutated [of 0 0 ex_disk "''result.csv''" ex_table]
    by (simp add: n getitem_mask_def eq_scalar_def ex_table_def ex_row_def)
qed

text \<open>
  C1. The two cohorts that \<^verbatim>\<open>visualize_data\<close> builds from the table it read (lines 90 and
  91) are drawn from the rows of the table, share no row, and every row in neither of them
  has an \<open>INC\<close> value other than 0 and 1. The cohorts are the rows with \<open>INC = 1\<close> and the
  rows with \<open>INC = 0\<close>, in file order; the table itself is kept as read. The excluded rows
  raise nothing: the filters accept every table, and the run ends as the run on the table
  without the excluded rows ends (normally, or with the same exception).
\<close>

theorem split_partitions_rows:
  assumes "read_csv p s = Inr df"
    and "inc = heap (snd (visualize_data p s)) (Suc (nxt s))"
    and "trad = heap (snd (visualize_data p s)) (Suc (Suc (nxt s)))"
  shows "set inc \<union> set trad \<subseteq> set df \<and>
         set inc \<inter> set trad = {} \<and>
         (\<forall>r \<in> set df. r \<notin> set inc \<union> set trad \<longrightarrow> INC r \<noteq> 0 \<and> INC r \<noteq> 1) \<and>
         inc = filter (\<lambda>r. INC r = 1) df \<and>
         trad = filter (\<lambda>r. INC r = 0) df \<and>
         heap (snd (visualize_data p s)) (nxt s) = df \<and>
         fst (visualize_data p
           (s\<lparr>fs := (fs s)(p \<mapsto> File (Csv (filter (\<lambda>r. INC r = 1 \<or> INC r = 0) df)))\<rparr>)) =
         fst (visualize_data p s)"
  using assms excluded_rows_no_effect [OF assms(1)]
  by (auto simp add: visualize_data_heap getitem_mask_filter)

theorem split_partitions_rows_witness:
  "read_csv ''result.csv'' ex_disk = Inr ex_table \<and>
   heap (snd (visualize_data ''result.csv'' ex_disk)) (Suc 0) = [ex_row 10 1, ex_row 1000 1] \<and>
   heap (snd (visualize_data ''result.csv'' ex_disk)) (Suc (Suc 0)) = [ex_row 10 0, ex_row 100 0] \<and>
   ex_row 50 2 \<in> set ex_table \<and>
   ex_row 50 2 \<notin> set (heap (snd (visualize_data ''result.csv'' ex_disk)) (Suc 0)) \<and>
   ex_row 50 2 \<notin> set (heap (snd (visualize_data ''result.csv'' ex_disk)) (Suc (Suc 0))) \<and>
   INC (ex_row 50 2) \<noteq> 0 \<and> INC (ex_row 50 2) \<noteq> 1"
proof -
  have h: "read_csv ''result.csv'' ex_disk = Inr ex_table"
    by (simp add: read_csv_def ex_disk_def)
  have n: "nxt ex_disk = 0"
    by (simp add: ex_disk_def)
  show ?thesis
    using h split_partitions_rows [OF h refl refl]
    by (simp add: n ex_table_def ex_row_def)
qed

text \<open>
  C6. A run that ends normally started with \<^verbatim>\<open>results\<close> absent or a directory and leaves it
  a directory; it leaves an image at each of the four fixed paths, whatever was there
  before, and changes no other path. Each plot function that returns normally has written
  an image at its own path and has changed no other path.
\<close>

theorem successful_run_outputs:
  assumes "fst (main argv s) = None" and "s' = snd (main argv s)"
  shows "(fs s ''results'' = None \<or> fs s ''results'' = Some Dir) \<and>
     fs s' ''results'' = Some Dir \<and>
     (\<exists>g. fs s' ''results/TimingCost.png'' = Some (File (Png g)) \<and>
          title g = ''Timing Cost'') \<and>
     (\<exists>g. fs s' ''results/BandwidthUsage_Msg.png'' = Some (File (Png g)) \<and>
          title g = ''Bandwidth Usage (Message Based)'') \<and>
     (\<exists>g. fs s' ''results/BandwidthUsage_Byte.png'' = Some (File (Png g)) \<and>
          title g = ''Bandwidth Usage'') \<and>
     (\<exists>g. fs s' ''results/ComplTimeDiff.png'' = Some (File (Png g)) \<and>
          title g = ''Completion Time Variation'') \<and>
     (\<forall>q. q \<notin> {''results'', ''results/TimingCost.png'', ''results/BandwidthUsage_Msg.png'',
               ''results/BandwidthUsage_Byte.png'', ''results/ComplTimeDiff.png''} \<longrightarrow>
          fs s' q = fs s q) \<and>
     (fst (plot_timing_cost i t s0) = None \<longrightarrow>
        (\<exists>g. fs (snd (plot_timing_cost i t s0)) ''results/TimingCost.png'' = Some (File (Png g))) \<and>
        (\<forall>q. q \<noteq> ''results/TimingCost.png'' \<longrightarrow>
             fs (snd (plot_timing_cost i t s0)) q = fs s0 q)) \<and>
     (fst (plot_bandwidth_usage_msg i t s0) = None \<longrightarrow>
        (\<exists>g. fs (snd (plot_bandwidth_usage_msg i t s0)) ''results/BandwidthUsage_Msg.png'' =
               Some (File (Png g))) \<and>
        (\<forall>q. q \<noteq> ''results/BandwidthUsage_Msg.png'' \<longrightarrow>
             fs (snd (plot_bandwidth_usage_msg i t s0)) q = fs s0 q)) \<and>
     (fst (plot_bandwidth_usage_byte i t s0) = None \<longrightarrow>
        (\<exists>g. fs (snd (plot_bandwidth_usage_byte i t s0)) ''results/BandwidthUsage_Byte.png'' =
               Some (File (Png g))) \<and>
        (\<forall>q. q \<noteq> ''results/BandwidthUsage_Byte.png'' \<longrightarrow>
             fs (snd (plot_bandwidth_usage_byte i t s0)) q = fs s0 q)) \<and>
     (fst (plot_compl_time_diff i t s0) = None \<longrightarrow>
        (\<exists>g. fs (snd (plot_compl_time_diff i t s0)) ''results/ComplTimeDiff.png'' =
               Some (File (Png g))) \<and>
        (\<forall>q. q \<noteq> ''results/ComplTimeDiff.png'' \<longrightarrow>
             fs (snd (plot_compl_time_diff i t s0)) q = fs s0 q))"
proof -
  from assms(1) obtain p where "main argv s = visualize_data p s"
    by (auto simp: main_def sys_exit_def Let_def split: if_splits)
  with assms have run: "visualize_data p s = (None, s')"
    by (simp add: prod_eq_iff)
  from visualize_data_ok_fs [OF run] obtain g1 g2 g3 g4 where
    pre: "fs s ''results'' = None \<or> fs s ''results'' = Some Dir" and
    fs': "fs s' = (fs s)(''results'' \<mapsto> Dir,
                           ''results/TimingCost.png'' \<mapsto> File (Png g1),
                           ''results/BandwidthUsage_Msg.png'' \<mapsto> File (Png g2),
                           ''results/BandwidthUsage_Byte.png'' \<mapsto> File (Png g3),
                           ''results/ComplTimeDiff.png'' \<mapsto> File (Png g4))" and
    ts: "title g1 = ''Timing Cost''" "title g2 = ''Bandwidth Usage (Message Based)''"
      "title g3 = ''Bandwidth Usage''" "title g4 = ''Completion Time Variation''"
    by blast
  have whole: "(fs s ''results'' = None \<or> fs s ''results'' = Some Dir) \<and>
     fs s' ''results'' = Some Dir \<and>
     (\<exists>g. fs s' ''results/TimingCost.png'' = Some (File (Png g)) \<and>
          title g = ''Timing Cost'') \<and>
     (\<exists>g. fs s' ''results/BandwidthUsage_Msg.png'' = Some (File (Png g)) \<and>
          title g = ''Bandwidth Usage (Message Based)'') \<and>
     (\<exists>g. fs s' ''results/BandwidthUsage_Byte.png'' = Some (File (Png g)) \<and>
          title g = ''Bandwidth Usage'') \<and>
     (\<exists>g. fs s' ''results/ComplTimeDiff.png'' = Some (File (Png g)) \<and>
          title g = ''Completion Time Variation'') \<and>
     (\<forall>q. q \<notin> {''results'', ''results/TimingCost.png'', ''results/BandwidthUsage_Msg.png'',
               ''results/BandwidthUsage_Byte.png'', ''results/ComplTimeDiff.png''} \<longrightarrow>
          fs s' q = fs s q)"
    using pre ts by (simp add: fs')
  show ?thesis
    using whole by (simp add: plot_finish plot_one_file)
qed

theorem successful_run_outputs_witness:
  "fst (main [''plotResults.py''] ex_disk) = None \<and>
   fs ex_disk ''results'' = None \<and>
   fs (snd (main [''plotResults.py''] ex_disk)) ''results'' = Some Dir \<and>
   (\<exists>g. fs (snd (main [''plotResults.py''] ex_disk)) ''results/TimingCost.png'' =
          Some (File (Png g))) \<and>
   (\<exists>g. fs (snd (main [''plotResults.py''] ex_disk)) ''results/BandwidthUsage_Msg.png'' =
          Some (File (Png g))) \<and>
   (\<exists>g. fs (snd (main [''plotResults.py''] ex_disk)) ''results/BandwidthUsage_Byte.png'' =
          Some (File (Png g))) \<and>
   (\<exists>g. fs (snd (main [''plotResults.py''] ex_disk)) ''results/ComplTimeDiff.png'' =
          Some (File (Png g))) \<and>
   fs (snd (main [''plotResults.py''] ex_disk)) ''result.csv'' = Some (File (Csv ex_table))"
proof -
  have rd: "read_csv ''result.csv'' ex_disk = Inr ex_table"
    by (simp add: read_csv_def ex_disk_def)
  have "fst (visualize_data ''result.csv'' ex_disk) = None"
    by (rule visualize_data_success [OF rd])
       (simp_all add: ex_table_def ex_row_def ex_disk_def)
  then have h: "fst (main [''plotResults.py''] ex_disk) = None"
    by (simp add: main_def)
  have old: "fs ex_disk ''results'' = None" "fs ex_disk ''result.csv'' = Some (File (Csv ex_table))"
    by (simp_all add: ex_disk_def)
  show ?thesis
    using h old successful_run_outputs [OF h refl, of 0 0 ex_disk]
    by auto
qed

text \<open>
  C2, as the code has it. The combined \<open>CompNodes\<close> values can have minimum 10 and maximum
  1000 while the INC-enabled cohort is empty. Then \<^verbatim>\<open>max\<close> and \<^verbatim>\<open>min\<close> on lines 18 and 19 keep
  the NaN of the empty first series, every tick is NaN, and \<^verbatim>\<open>plot_timing_cost\<close> raises
  ValueError without setting any tick.
\<close>

theorem empty_inc_spanning_counterexample:
  "Min (set (map CompNodes (heap (ex_loaded [] [ex_row 10 0, ex_row 1000 0]) 0) @
             map CompNodes (heap (ex_loaded [] [ex_row 10 0, ex_row 1000 0]) (Suc 0)))) = 10 \<and>
   Max (set (map CompNodes (heap (ex_loaded [] [ex_row 10 0, ex_row 1000 0]) 0) @
             map CompNodes (heap (ex_loaded [] [ex_row 10 0, ex_row 1000 0]) (Suc 0)))) = 1000 \<and>
   fst (plot_timing_cost 0 (Suc 0) (ex_loaded [] [ex_row 10 0, ex_row 1000 0])) = Some ValueError \<and>
   drawn_ticks (plot_timing_cost 0 (Suc 0) (ex_loaded [] [ex_row 10 0, ex_row 1000 0]))
     ''results/TimingCost.png'' = None"
proof -
  have e: "heap (ex_loaded [] [ex_row 10 0, ex_row 1000 0]) 0 = []"
    by (simp add: ex_loaded_def)
  have t: "map CompNodes (heap (ex_loaded [] [ex_row 10 0, ex_row 1000 0]) (Suc 0)) = [10, 1000]"
    by (simp add: ex_loaded_def ex_row_def)
  show ?thesis
    by (simp add: e t plot_finish finish_plot_empty_inc drawn_ticks_def chart_ticks)
qed

text \<open>
  C2, amended. When the INC-enabled cohort has a row and the \<open>CompNodes\<close> values of the two
  cohorts together have minimum 10 and maximum 1000, the tick computation of
  \<^verbatim>\<open>plot_timing_cost\<close> raises nothing and puts ten ticks on the figure: strictly increasing,
  the first exactly 10 and the last exactly 1000, the \<open>k\<close>-th within a relative \<open>2 ^ -40\<close> of
  \<open>10 powr (1 + 2k/9)\<close>, with the labels \<^verbatim>\<open>10\<close> and \<^verbatim>\<open>1,000\<close> at the ends.
\<close>

theorem ticks_span_10_to_1000:
  assumes "heap s i \<noteq> []"
    and "Min (set (map CompNodes (heap s i) @ map CompNodes (heap s t))) = 10"
    and "Max (set (map CompNodes (heap s i) @ map CompNodes (heap s t))) = 1000"
  shows "fst (plot_timing_cost i t s) \<noteq> Some ValueError \<and>
     fst (plot_timing_cost i t s) \<noteq> Some OverflowError \<and>
     (\<exists>vs labels.
        drawn_ticks (plot_timing_cost i t s) ''results/TimingCost.png'' =
          Some (map Fin vs, labels) \<and>
        length vs = 10 \<and> sorted_wrt (<) vs \<and> hd vs = 10 \<and> last vs = 1000 \<and>
        (\<forall>k<10. \<bar>vs ! k - 10 powr (1 + 2 * real k / 9)\<bar> \<le>
                   10 powr (1 + 2 * real k / 9) / 2 ^ 40) \<and>
        length labels = 10 \<and> hd labels = ''10'' \<and> last labels = ''1,000'')"
proof -
  let ?xs = "map CompNodes (heap s i)" and ?ys = "map CompNodes (heap s t)"
  let ?vs = "map (\<lambda>k. f64 (10 powr (1 + 2 * real k / 9))) [0..<10]"
  have xs: "?xs \<noteq> []" using assms(1) by simp
  have tk: "comp_node_ticks ?xs ?ys = map Fin ?vs"
    by (rule ticks_10_1000 [OF xs assms(2,3)])
  obtain labels where lb: "tick_labels (comp_node_ticks ?xs ?ys) = Inr labels"
    unfolding tk tick_labels_fin by blast
  have vs: "length ?vs = 10" "hd ?vs = 10" "last ?vs = 1000"
    by (simp_all only: decade_ends) simp
  have cl: "\<forall>k<10. \<bar>?vs ! k - 10 powr (1 + 2 * real k / 9)\<bar> \<le>
                   10 powr (1 + 2 * real k / 9) / 2 ^ 40"
    using decade_close by simp
  have err: "fst (plot_timing_cost i t s) \<noteq> Some ValueError \<and>
     fst (plot_timing_cost i t s) \<noteq> Some OverflowError"
    using finish_plot_tick_errors [OF lb] by (simp add: plot_finish)
  have dr: "drawn_ticks (plot_timing_cost i t s) ''results/TimingCost.png'' =
              Some (map Fin ?vs, labels)"
    by (simp only: drawn_ticks_plot tk lb [unfolded tk] sum.case)
  from lb have "length labels = 10 \<and> hd labels = ''10'' \<and> last labels = ''1,000''"
    unfolding tk by (rule decade_labels)
  with err dr vs cl decade_sorted show ?thesis
    by blast
qed

theorem ticks_span_10_to_1000_witness:
  "heap (ex_loaded [ex_row 10 1, ex_row 1000 1] [ex_row 10 0]) 0 \<noteq> [] \<and>
   Min (set (map CompNodes (heap (ex_loaded [ex_row 10 1, ex_row 1000 1] [ex_row 10 0]) 0) @
             map CompNodes (heap (ex_loaded [ex_row 10 1, ex_row 1000 1] [ex_row 10 0]) 1))) = 10 \<and>
   Max (set (map CompNodes (heap (ex_loaded [ex_row 10 1, ex_row 1000 1] [ex_row 10 0]) 0) @
             map CompNodes (heap (ex_loaded [ex_row 10 1, ex_row 1000 1] [ex_row 10 0]) 1))) = 1000 \<and>
   (\<exists>vs labels.
      drawn_ticks (plot_timing_cost 0 1 (ex_loaded [ex_row 10 1, ex_row 1000 1] [ex_row 10 0]))
        ''results/TimingCost.png'' = Some (map Fin vs, labels) \<and>
      length vs = 10 \<and> sorted_wrt (<) vs \<and> hd vs = 10 \<and> last vs = 1000 \<and>
      hd labels = ''10'' \<and> last labels = ''1,000'')"
proof -
  let ?s = "ex_loaded [ex_row 10 1, ex_row 1000 1] [ex_row 10 0]"
  have ne: "heap ?s 0 \<noteq> []"
    by (simp add: ex_loaded_def)
  have lo: "Min (set (map CompNodes (heap ?s 0) @ map CompNodes (heap ?s 1))) = 10"
    by (simp add: ex_loaded_def ex_row_def)
  have hi: "Max (set (map CompNodes (heap ?s 0) @ map CompNodes (heap ?s 1))) = 1000"
    by (simp add: ex_loaded_def ex_row_def)
  show ?thesis
    using ne lo hi ticks_span_10_to_1000 [OF ne lo hi]
    by blast
qed

text \<open>
  C3, as the code has it. An empty traditional cohort alone does not fail: Python's
  \<^verbatim>\<open>max(a, b)\<close> and \<^verbatim>\<open>min(a, b)\<close> keep \<open>a\<close> when \<open>b\<close> is the NaN of the empty series, so the
  ticks come from the INC-enabled cohort. Here the INC-enabled cohort has one row with 10
  nodes, the traditional cohort has none, and \<^verbatim>\<open>plot_timing_cost\<close> returns normally.
\<close>

theorem empty_traditional_counterexample:
  "heap (ex_loaded [ex_row 10 1] []) (Suc 0) = [] \<and>
   fst (plot_timing_cost 0 (Suc 0) (ex_loaded [ex_row 10 1] [])) \<noteq> Some ValueError \<and>
   fst (plot_timing_cost 0 (Suc 0) (ex_loaded [ex_row 10 1] [])) = None"
proof -
  have "fst (plot_timing_cost 0 (Suc 0) (ex_loaded [ex_row 10 1] [])) = None"
    by (rule plot_success) (simp_all add: ex_loaded_def ex_row_def)
  then show ?thesis
    by (simp add: ex_loaded_def)
qed

text \<open>
  C3, amended. If the INC-enabled cohort has no rows, each of the four plot functions
  raises ValueError (from \<^verbatim>\<open>int\<close> of a NaN tick on line 21) and writes no file. If only the
  traditional cohort has no rows and the \<open>CompNodes\<close> values of the INC-enabled cohort are
  positive (and below \<open>2 ^ 63\<close>), no error arises in any of the four: the ticks each of them
  puts on its figure are the ten log-spaced points from the minimum to the maximum of the
  INC-enabled cohort alone, the tick computation raises nothing, and each call returns
  normally when \<^verbatim>\<open>results\<close> is a directory and its target is not one.
\<close>

theorem empty_cohort_ticks:
  "(heap s i = [] \<longrightarrow>
      fst (plot_timing_cost i t s) = Some ValueError \<and>
      fst (plot_bandwidth_usage_msg i t s) = Some ValueError \<and>
      fst (plot_bandwidth_usage_byte i t s) = Some ValueError \<and>
      fst (plot_compl_time_diff i t s) = Some ValueError \<and>
      fs (snd (plot_timing_cost i t s)) = fs s \<and>
      fs (snd (plot_bandwidth_usage_msg i t s)) = fs s \<and>
      fs (snd (plot_bandwidth_usage_byte i t s)) = fs s \<and>
      fs (snd (plot_compl_time_diff i t s)) = fs s) \<and>
   (heap s i \<noteq> [] \<and> heap s t = [] \<and> 0 < Min (set (map CompNodes (heap s i))) \<and>
    Max (set (map CompNodes (heap s i))) < 2 ^ 63 \<longrightarrow>
      (\<exists>labels.
         drawn_ticks (plot_timing_cost i t s) ''results/TimingCost.png'' =
           Some (np_logspace
                   (np_log10 (Fin (real_of_int (Min (set (map CompNodes (heap s i)))))))
                   (np_log10 (Fin (real_of_int (Max (set (map CompNodes (heap s i))))))) 10,
                 labels) \<and>
         drawn_ticks (plot_bandwidth_usage_msg i t s) ''results/BandwidthUsage_Msg.png'' =
           drawn_ticks (plot_timing_cost i t s) ''results/TimingCost.png'' \<and>
         drawn_ticks (plot_bandwidth_usage_byte i t s) ''results/BandwidthUsage_Byte.png'' =
           drawn_ticks (plot_timing_cost i t s) ''results/TimingCost.png'' \<and>
         drawn_ticks (plot_compl_time_diff i t s) ''results/ComplTimeDiff.png'' =
           drawn_ticks (plot_timing_cost i t s) ''results/TimingCost.png'') \<and>
      fst (plot_timing_cost i t s) \<notin> {Some ValueError, Some OverflowError} \<and>
      fst (plot_bandwidth_usage_msg i t s) \<notin> {Some ValueError, Some OverflowError} \<and>
      fst (plot_bandwidth_usage_byte i t s) \<notin> {Some ValueError, Some OverflowError} \<and>
      fst (plot_compl_time_diff i t s) \<notin> {Some ValueError, Some OverflowError} \<and>
      (fs s ''results'' = Some Dir \<and> fs s ''results/TimingCost.png'' \<noteq> Some Dir \<longrightarrow>
         fst (plot_timing_cost i t s) = None) \<and>
      (fs s ''results'' = Some Dir \<and> fs s ''results/BandwidthUsage_Msg.png'' \<noteq> Some Dir \<longrightarrow>
         fst (plot_bandwidth_usage_msg i t s) = None) \<and>
      (fs s ''results'' = Some Dir \<and> fs s ''results/BandwidthUsage_Byte.png'' \<noteq> Some Dir \<longrightarrow>
         fst (plot_bandwidth_usage_byte i t s) = None) \<and>
      (fs s ''results'' = Some Dir \<and> fs s ''results/ComplTimeDiff.png'' \<noteq> Some Dir \<longrightarrow>
         fst (plot_compl_time_diff i t s) = None))"
proof (intro conjI impI)
  assume h: "heap s i \<noteq> [] \<and> heap s t = [] \<and> 0 < Min (set (map CompNodes (heap s i))) \<and>
    Max (set (map CompNodes (heap s i))) < 2 ^ 63"
  let ?xs = "map CompNodes (heap s i)"
  from h have ne: "?xs \<noteq> []" and e: "map CompNodes (heap s t) = []"
    and lo: "0 < Min (set (?xs @ []))" and nei: "heap s i \<noteq> []"
    by simp_all
  from tick_labels_pos [OF ne lo] obtain labels where
    lb: "tick_labels (comp_node_ticks ?xs []) = Inr labels" ..
  have tk: "comp_node_ticks ?xs [] =
      np_logspace (np_log10 (Fin (real_of_int (Min (set ?xs)))))
                  (np_log10 (Fin (real_of_int (Max (set ?xs))))) 10"
    using py_min_series [OF ne, of "[]"] py_max_series [OF ne, of "[]"] by simp
  have dr: "drawn_ticks (plot_timing_cost i t s) ''results/TimingCost.png'' =
              Some (comp_node_ticks ?xs [], labels)"
    "drawn_ticks (plot_bandwidth_usage_msg i t s) ''results/BandwidthUsage_Msg.png'' =
              Some (comp_node_ticks ?xs [], labels)"
    "drawn_ticks (plot_bandwidth_usage_byte i t s) ''results/BandwidthUsage_Byte.png'' =
              Some (comp_node_ticks ?xs [], labels)"
    "drawn_ticks (plot_compl_time_diff i t s) ''results/ComplTimeDiff.png'' =
              Some (comp_node_ticks ?xs [], labels)"
    by (simp_all only: drawn_ticks_plot e lb sum.case)
  show "\<exists>labels.
         drawn_ticks (plot_timing_cost i t s) ''results/TimingCost.png'' =
           Some (np_logspace
                   (np_log10 (Fin (real_of_int (Min (set (map CompNodes (heap s i)))))))
                   (np_log10 (Fin (real_of_int (Max (set (map CompNodes (heap s i))))))) 10,
                 labels) \<and>
         drawn_ticks (plot_bandwidth_usage_msg i t s) ''results/BandwidthUsage_Msg.png'' =
           drawn_ticks (plot_timing_cost i t s) ''results/TimingCost.png'' \<and>
         drawn_ticks (plot_bandwidth_usage_byte i t s) ''results/BandwidthUsage_Byte.png'' =
           drawn_ticks (plot_timing_cost i t s) ''results/TimingCost.png'' \<and>
         drawn_ticks (plot_compl_time_diff i t s) ''results/ComplTimeDiff.png'' =
           drawn_ticks (plot_timing_cost i t s) ''results/TimingCost.png''"
    unfolding dr tk [symmetric] by blast
  have lb': "tick_labels (comp_node_ticks ?xs (map CompNodes (heap s t))) = Inr labels"
    unfolding e by (rule lb)
  show "fst (plot_timing_cost i t s) \<notin> {Some ValueError, Some OverflowError}"
    "fst (plot_bandwidth_usage_msg i t s) \<notin> {Some ValueError, Some OverflowError}"
    "fst (plot_bandwidth_usage_byte i t s) \<notin> {Some ValueError, Some OverflowError}"
    "fst (plot_compl_time_diff i t s) \<notin> {Some ValueError, Some OverflowError}"
    using finish_plot_tick_errors [OF lb'] by (simp_all add: plot_finish)
  have lo': "0 < Min (set (?xs @ map CompNodes (heap s t)))"
    unfolding e by (rule lo)
  {
    assume "fs s ''results'' = Some Dir \<and> fs s ''results/TimingCost.png'' \<noteq> Some Dir"
    then show "fst (plot_timing_cost i t s) = None"
      using nei lo' by (intro plot_success) simp_all
  }
  {
    assume "fs s ''results'' = Some Dir \<and> fs s ''results/BandwidthUsage_Msg.png'' \<noteq> Some Dir"
    then show "fst (plot_bandwidth_usage_msg i t s) = None"
      using nei lo' by (intro plot_success) simp_all
  }
  {
    assume "fs s ''results'' = Some Dir \<and> fs s ''results/BandwidthUsage_Byte.png'' \<noteq> Some Dir"
    then show "fst (plot_bandwidth_usage_byte i t s) = None"
      using nei lo' by (intro plot_success) simp_all
  }
  {
    assume "fs s ''results'' = Some Dir \<and> fs s ''results/ComplTimeDiff.png'' \<noteq> Some Dir"
    then show "fst (plot_compl_time_diff i t s) = None"
      using nei lo' by (intro plot_success) simp_all
  }
qed (simp_all add: plot_finish finish_plot_empty_inc)

theorem empty_cohort_ticks_witness:
  "heap (ex_loaded [] [ex_row 10 0]) 0 = [] \<and>
   fst (plot_timing_cost 0 (Suc 0) (ex_loaded [] [ex_row 10 0])) = Some ValueError \<and>
   fs (snd (plot_timing_cost 0 (Suc 0) (ex_loaded [] [ex_row 10 0]))) ''results/TimingCost.png''
     = None \<and>
   heap (ex_loaded [ex_row 7 1] []) 0 \<noteq> [] \<and> heap (ex_loaded [ex_row 7 1] []) (Suc 0) = [] \<and>
   0 < Min (set (map CompNodes (heap (ex_loaded [ex_row 7 1] []) 0))) \<and>
   Max (set (map CompNodes (heap (ex_loaded [ex_row 7 1] []) 0))) < 2 ^ 63 \<and>
   fs (ex_loaded [ex_row 7 1] []) ''results'' = Some Dir \<and>
   fs (ex_loaded [ex_row 7 1] []) ''results/TimingCost.png'' \<noteq> Some Dir \<and>
   fs (ex_loaded [ex_row 7 1] []) ''results/ComplTimeDiff.png'' \<noteq> Some Dir \<and>
   (\<exists>labels.
      drawn_ticks (plot_timing_cost 0 (Suc 0) (ex_loaded [ex_row 7 1] []))
        ''results/TimingCost.png'' =
      Some (np_logspace (np_log10 (Fin 7)) (np_log10 (Fin 7)) 10, labels)) \<and>
   fst (plot_timing_cost 0 (Suc 0) (ex_loaded [ex_row 7 1] [])) = None \<and>
   fst (plot_compl_time_diff 0 (Suc 0) (ex_loaded [ex_row 7 1] [])) = None"
proof -
  have a: "heap (ex_loaded [] [ex_row 10 0]) 0 = []"
    "fs (ex_loaded [] [ex_row 10 0]) ''results/TimingCost.png'' = None"
    by (simp_all add: ex_loaded_def)
  have b: "heap (ex_loaded [ex_row 7 1] []) 0 \<noteq> [] \<and> heap (ex_loaded [ex_row 7 1] []) (Suc 0) = [] \<and>
    0 < Min (set (map CompNodes (heap (ex_loaded [ex_row 7 1] []) 0))) \<and>
    Max (set (map CompNodes (heap (ex_loaded [ex_row 7 1] []) 0))) < 2 ^ 63"
    by (simp add: ex_loaded_def ex_row_def)
  have c: "fs (ex_loaded [ex_row 7 1] []) ''results'' = Some Dir"
    "fs (ex_loaded [ex_row 7 1] []) ''results/TimingCost.png'' \<noteq> Some Dir"
    "fs (ex_loaded [ex_row 7 1] []) ''results/ComplTimeDiff.png'' \<noteq> Some Dir"
    by (simp_all add: ex_loaded_def)
  have m: "Min (set (map CompNodes (heap (ex_loaded [ex_row 7 1] []) 0))) = 7"
    "Max (set (map CompNodes (heap (ex_loaded [ex_row 7 1] []) 0))) = 7"
    by (simp_all add: ex_loaded_def ex_row_def)
  show ?thesis
    using a b c empty_cohort_ticks [of "ex_loaded [] [ex_row 10 0]" 0 "Suc 0"]
      empty_cohort_ticks [of "ex_loaded [ex_row 7 1] []" 0 "Suc 0"]
    unfolding m by simp
qed

text \<open>
  C8. When the \<open>CompNodes\<close> columns of the two cohorts are the same, the four plot functions
  put the same ticks and labels on their figures (or all four none, when the tick
  computation raises), whatever else differs between the states they run in and whichever
  metric they plot. For non-empty cohorts with positive node counts the ticks are the ten
  log-spaced points from the minimum to the maximum of the two columns together.
\<close>

theorem same_ticks_in_all_charts:
  assumes "map CompNodes (heap s1 i1) = xs" and "map CompNodes (heap s1 t1) = ys"
    and "map CompNodes (heap s2 i2) = xs" and "map CompNodes (heap s2 t2) = ys"
    and "map CompNodes (heap s3 i3) = xs" and "map CompNodes (heap s3 t3) = ys"
    and "map CompNodes (heap s4 i4) = xs" and "map CompNodes (heap s4 t4) = ys"
  shows "drawn_ticks (plot_bandwidth_usage_msg i2 t2 s2) ''results/BandwidthUsage_Msg.png'' =
           drawn_ticks (plot_timing_cost i1 t1 s1) ''results/TimingCost.png'' \<and>
         drawn_ticks (plot_bandwidth_usage_byte i3 t3 s3) ''results/BandwidthUsage_Byte.png'' =
           drawn_ticks (plot_timing_cost i1 t1 s1) ''results/TimingCost.png'' \<and>
         drawn_ticks (plot_compl_time_diff i4 t4 s4) ''results/ComplTimeDiff.png'' =
           drawn_ticks (plot_timing_cost i1 t1 s1) ''results/TimingCost.png'' \<and>
         (xs \<noteq> [] \<and> ys \<noteq> [] \<and> 0 < Min (set (xs @ ys)) \<longrightarrow>
            (\<exists>labels.
               drawn_ticks (plot_timing_cost i1 t1 s1) ''results/TimingCost.png'' =
                 Some (np_logspace (np_log10 (Fin (real_of_int (Min (set (xs @ ys))))))
                                   (np_log10 (Fin (real_of_int (Max (set (xs @ ys)))))) 10,
                       labels)))"
proof -
  have val: "\<exists>labels.
               drawn_ticks (plot_timing_cost i1 t1 s1) ''results/TimingCost.png'' =
                 Some (np_logspace (np_log10 (Fin (real_of_int (Min (set (xs @ ys))))))
                                   (np_log10 (Fin (real_of_int (Max (set (xs @ ys)))))) 10,
                       labels)"
    if "xs \<noteq> [] \<and> ys \<noteq> [] \<and> 0 < Min (set (xs @ ys))"
  proof -
    from that have ne: "xs \<noteq> []" and lo: "0 < Min (set (xs @ ys))" by simp_all
    from tick_labels_pos [OF ne lo] obtain labels where
      lb: "tick_labels (comp_node_ticks xs ys) = Inr labels" ..
    have "drawn_ticks (plot_timing_cost i1 t1 s1) ''results/TimingCost.png'' =
            Some (comp_node_ticks xs ys, labels)"
      by (simp only: drawn_ticks_plot assms lb sum.case)
    then show ?thesis
      by (simp only: py_min_series [OF ne] py_max_series [OF ne]) blast
  qed
  show ?thesis
    using val by (simp only: drawn_ticks_plot assms) simp
qed

theorem same_ticks_in_all_charts_witness:
  "map CompNodes (heap (ex_loaded [ex_row 10 1, ex_row 1000 1] [ex_row 10 0]) 0) = [10, 1000] \<and>
   map CompNodes (heap (ex_loaded [ex_row 10 1, ex_row 1000 1] [ex_row 10 0]) (Suc 0)) = [10] \<and>
   [10, 1000] \<noteq> ([] :: int list) \<and> [10] \<noteq> ([] :: int list) \<and>
   0 < Min (set ([10, 1000] @ [10 :: int])) \<and>
   drawn_ticks (plot_compl_time_diff 0 (Suc 0) (ex_loaded [ex_row 10 1, ex_row 1000 1] [ex_row 10 0]))
     ''results/ComplTimeDiff.png'' =
   drawn_ticks (plot_timing_cost 0 (Suc 0) (ex_loaded [ex_row 10 1, ex_row 1000 1] [ex_row 10 0]))
     ''results/TimingCost.png'' \<and>
   (\<exists>labels.
      drawn_ticks (plot_timing_cost 0 (Suc 0) (ex_loaded [ex_row 10 1, ex_row 1000 1] [ex_row 10 0]))
        ''results/TimingCost.png'' =
      Some (np_logspace (np_log10 (Fin 10)) (np_log10 (Fin 1000)) 10, labels))"
proof -
  let ?s = "ex_loaded [ex_row 10 1, ex_row 1000 1] [ex_row 10 0]"
  have cx: "map CompNodes (heap ?s 0) = [10, 1000]"
    and cy: "map CompNodes (heap ?s (Suc 0)) = [10]"
    by (simp_all add: ex_loaded_def ex_row_def)
  show ?thesis
    using cx cy same_ticks_in_all_charts [OF cx cy cx cy cx cy cx cy]
    by simp
qed





end
